theory Spec2Isabelle
  imports Main
begin

section \<open>The appointment routes of the medical consultation backend\<close>

text \<open>
  The development embeds the appointment router (\<^verbatim>\<open>routes/appointments\<close>: the handlers of
  \<^verbatim>\<open>POST /\<close>, \<^verbatim>\<open>GET /:id\<close>, \<^verbatim>\<open>PUT /:id/status\<close> and \<^verbatim>\<open>DELETE /:id\<close>), the middleware of
  \<^verbatim>\<open>middleware/auth.js\<close> those routes mount, and \<^verbatim>\<open>transaction\<close> of \<^verbatim>\<open>config/database.js\<close>.

  Conventions of the embedding.
  \<^item> A table is the list of its rows, a row a record of the columns the handlers read or
    write; a column \<^verbatim>\<open>c\<close> of a table is the field \<^verbatim>\<open>x_c\<close>, the letter naming the table.
    A query is a list comprehension over the tables, \<^verbatim>\<open>rows[0]\<close> the head of its result.
    An \<^verbatim>\<open>UPDATE ... WHERE id = $1\<close> rewrites every row with that id.
  \<^item> Keys are integers. A foreign key that is \<^verbatim>\<open>NULL\<close> joins with no row and equals no
    id, as a key with no row does, so the key columns are not optional. Of the other
    nullable columns, \<^verbatim>\<open>consultation_modes\<close> and \<^verbatim>\<open>consultation_fee\<close> are optional values.
  \<^item> A handler takes the database and returns the response with the database after it.
    A thrown JavaScript \<^verbatim>\<open>Error\<close> is its message, on the left of a sum; a callback that
    throws also returns the database as its statements left it, for \<^verbatim>\<open>ROLLBACK\<close> to undo.
  \<^item> What PostgreSQL does with a parameter or a statement text is written out where a
    handler can reach it: an id that is no \<^verbatim>\<open>INTEGER\<close>, a foreign key with no row, the
    \<^verbatim>\<open>VALUES\<close> list the booking builds by pasting names into the statement. The texts of
    PostgreSQL's own error messages are shortened, except where they quote the request.
    A lost connection is not modelled.
  \<^item> A JavaScript \<^verbatim>\<open>Date\<close> is its number of milliseconds since the epoch, an SQL
    \<^verbatim>\<open>DATE\<close> the number of a day, an SQL \<^verbatim>\<open>TIME\<close> the minutes since midnight. The clock,
    the time zone of the process and the rendering of a date are the server's.
  \<^item> The file is ASCII: the French notification texts are written without their accents.
\<close>

subsection \<open>Tables\<close>

type_synonym instant = int
type_synonym day = int
type_synonym time_of_day = nat

record user_row =
  u_id :: int
  u_first_name :: string
  u_last_name :: string
  u_role :: string
  u_is_active :: bool

record doctor_row =
  d_id :: int
  d_user_id :: int
  d_specialty_id :: int
  d_consultation_fee :: "int option"
  d_consultation_modes :: "string list option"
  d_is_verified :: bool
  d_is_available :: bool

record slot_row =
  s_id :: int
  s_doctor_id :: int
  s_slot_date :: day
  s_slot_time :: time_of_day
  s_is_booked :: bool

record appointment_row =
  a_id :: int
  a_patient_id :: int
  a_doctor_id :: int
  a_slot_id :: int
  a_appointment_date :: day
  a_appointment_time :: time_of_day
  a_consultation_mode :: string
  a_status :: string
  a_reason_for_visit :: "string option"
  a_notes :: "string option"
  a_prescription :: "string option"
  a_consultation_fee :: "int option"

record notification_row =
  n_user_id :: int
  n_type :: string
  n_title :: string
  n_message :: string
  n_related_appointment_id :: int

text \<open>\<^verbatim>\<open>appointments_id_seq\<close> is the sequence behind the \<^verbatim>\<open>SERIAL\<close> key of \<^verbatim>\<open>appointments\<close>:
  an insert takes its next value.\<close>

record db =
  users :: "user_row list"
  doctors :: "doctor_row list"
  specialties :: "int list"
  doctor_time_slots :: "slot_row list"
  appointments :: "appointment_row list"
  appointments_id_seq :: int
  notifications :: "notification_row list"

subsection \<open>The server\<close>

text \<open>What the handlers take from the process they run in: \<^verbatim>\<open>clock\<close> is the current time
  (\<^verbatim>\<open>'now'\<close> of the Joi schema); \<^verbatim>\<open>zone\<close> gives, at an instant, the offset of the process's
  local time from UTC in milliseconds (the negated \<^verbatim>\<open>getTimezoneOffset\<close>);
  \<^verbatim>\<open>date_text d t\<close> is the text of
  \<^verbatim>\<open>new Date(`${d} ${t}`).toLocaleDateString('fr-FR')\<close> for the validated date \<^verbatim>\<open>d\<close> and
  time \<^verbatim>\<open>t\<close> of a booking.\<close>

record server =
  clock :: instant
  zone :: "instant \<Rightarrow> int"
  date_text :: "instant \<Rightarrow> string \<Rightarrow> string"

subsection \<open>Requests and responses\<close>

text \<open>\<^verbatim>\<open>req.user\<close> and \<^verbatim>\<open>req.doctor\<close>, as the middleware attaches them.\<close>

record request_user =
  user_id :: int
  user_firstName :: string
  user_lastName :: string
  user_role :: string
  user_isActive :: bool

record request_doctor =
  doctor_id :: int
  doctor_isAvailable :: bool
  doctor_isVerified :: bool

text \<open>What \<^verbatim>\<open>jwt.verify\<close> makes of the authorization header: no token, one of its three
  failures, or the decoded user id.\<close>

datatype token = NoToken | TokenExpiredError | JsonWebTokenError | OtherVerifyError | Decoded int

text \<open>A response is its HTTP status and its JSON body. \<^verbatim>\<open>Failure e m\<close> is
  \<^verbatim>\<open>{error: e, message: m}\<close>; \<^verbatim>\<open>ValidationFailure k\<close> is the body of a Joi error,
  \<^verbatim>\<open>{error: 'Validation Error', message: error.details[0].message}\<close>, for the first key
  \<^verbatim>\<open>k\<close> that fails; the bodies of a success hold the row their \<^verbatim>\<open>data\<close> is read from.\<close>

datatype payload =
    Failure string string
  | ValidationFailure string
  | Booked string appointment_row string
  | Details appointment_row
  | Updated string "appointment_row option"
  | Done string

datatype response = Response (status: nat) (body: payload)

subsection \<open>\<^verbatim>\<open>middleware/auth.js\<close>\<close>

definition authenticateToken :: "db \<Rightarrow> token \<Rightarrow> response + request_user" where
  "authenticateToken database tok =
     (case tok of
        NoToken \<Rightarrow> Inl (Response 401 (Failure ''Unauthorized'' ''Access token is required''))
      | TokenExpiredError \<Rightarrow> Inl (Response 401 (Failure ''Unauthorized'' ''Token has expired''))
      | JsonWebTokenError \<Rightarrow> Inl (Response 401 (Failure ''Unauthorized'' ''Invalid token''))
      | OtherVerifyError \<Rightarrow>
          Inl (Response 500 (Failure ''Internal Server Error'' ''Token verification failed''))
      | Decoded uid \<Rightarrow>
          (case [u \<leftarrow> users database. u_id u = uid] of
             [] \<Rightarrow> Inl (Response 401 (Failure ''Unauthorized'' ''Invalid token - user not found''))
           | user # _ \<Rightarrow>
               if \<not> u_is_active user
               then Inl (Response 401 (Failure ''Unauthorized'' ''Account has been deactivated''))
               else Inr \<lparr>user_id = u_id user, user_firstName = u_first_name user,
                         user_lastName = u_last_name user, user_role = u_role user,
                         user_isActive = u_is_active user\<rparr>))"

definition requireDoctor :: "db \<Rightarrow> request_user \<Rightarrow> response + request_doctor" where
  "requireDoctor database user =
     (if user_role user \<noteq> ''doctor''
      then Inl (Response 403 (Failure ''Forbidden'' ''Doctor access required''))
      else (case [d \<leftarrow> doctors database. d_user_id d = user_id user] of
              [] \<Rightarrow> Inl (Response 404 (Failure ''Not Found'' ''Doctor profile not found''))
            | doctor # _ \<Rightarrow>
                if \<not> d_is_available doctor
                then Inl (Response 403 (Failure ''Forbidden'' ''Doctor profile is not available''))
                else Inr \<lparr>doctor_id = d_id doctor, doctor_isAvailable = d_is_available doctor,
                          doctor_isVerified = d_is_verified doctor\<rparr>))"

text \<open>\<^verbatim>\<open>requirePatient\<close> answers itself (\<^verbatim>\<open>Some\<close>) or calls \<^verbatim>\<open>next()\<close> (\<^verbatim>\<open>None\<close>).\<close>

definition requirePatient :: "request_user \<Rightarrow> response option" where
  "requirePatient user =
     (if user_role user \<noteq> ''patient''
      then Some (Response 403 (Failure ''Forbidden'' ''Patient access required''))
      else None)"

subsection \<open>JavaScript strings\<close>

fun starts_with :: "string \<Rightarrow> string \<Rightarrow> bool" where
  "starts_with s [] = True"
| "starts_with [] (c # cs) = False"
| "starts_with (x # xs) (c # cs) = (x = c \<and> starts_with xs cs)"

text \<open>\<^verbatim>\<open>s.includes(sub)\<close>\<close>

fun str_includes :: "string \<Rightarrow> string \<Rightarrow> bool" where
  "str_includes [] sub = (sub = [])"
| "str_includes (x # xs) sub = (starts_with (x # xs) sub \<or> str_includes xs sub)"

text \<open>\<^verbatim>\<open>String(n)\<close> of an integer below \<open>10\<^sup>2\<^sup>1\<close>, where it is the decimal digits:
  at most 21 of them.\<close>

fun digits :: "nat \<Rightarrow> int \<Rightarrow> string" where
  "digits 0 n = []"
| "digits (Suc k) n =
     (if n < 10 then [char_of (48 + n)] else digits k (n div 10) @ [char_of (48 + n mod 10)])"

definition decimal :: "int \<Rightarrow> string" where
  "decimal n = digits 21 n"

definition js_number :: "int \<Rightarrow> string" where
  "js_number n = (if n < 0 then CHR ''-'' # decimal (- n) else decimal n)"

subsection \<open>What PostgreSQL reads\<close>

definition digit :: "char \<Rightarrow> nat option" where
  "digit c = (let n = of_char c in if 48 \<le> n \<and> n \<le> 57 then Some (n - 48) else None)"

definition is_space :: "char \<Rightarrow> bool" where
  "is_space c = (c = CHR '' '' \<or> c = CHR 0x09 \<or> c = CHR 0x0A \<or> c = CHR 0x0B \<or> c = CHR 0x0C
     \<or> c = CHR 0x0D)"

text \<open>A text parameter compared with, or stored in, an \<^verbatim>\<open>INTEGER\<close> column: white space
  around it is dropped, then it must be a sign or none and decimal digits, and the number
  must fit 32 bits. Both errors quote the parameter. (From version 16 PostgreSQL also
  reads other notations of an integer; they are outside this reader.)\<close>

definition int4 :: "string \<Rightarrow> string + int" where
  "int4 s =
     (let body = rev (dropWhile is_space (rev (dropWhile is_space s)));
          signed = (body \<noteq> [] \<and> (hd body = CHR ''-'' \<or> hd body = CHR ''+''));
          ds = (if signed then tl body else body)
      in if ds = [] \<or> \<not> list_all (\<lambda>c. digit c \<noteq> None) ds
         then Inl (''invalid input syntax for type integer: '' @ [CHR 0x22] @ s @ [CHR 0x22])
         else (let n = foldl (\<lambda>a c. 10 * a + int (case digit c of None \<Rightarrow> 0 | Some d \<Rightarrow> d)) 0 ds;
                   k = (if hd body = CHR ''-'' then - n else n)
               in if k < - 2147483648 \<or> 2147483647 < k
                  then Inl (''value '' @ [CHR 0x22] @ s @ [CHR 0x22]
                            @ '' is out of range for type integer'')
                  else Inr k))"

text \<open>A JavaScript integer as such a parameter: it travels as its decimal text and is read
  back as itself, if it fits.\<close>

definition int4_number :: "int \<Rightarrow> string + int" where
  "int4_number n =
     (if n < - 2147483648 \<or> 2147483647 < n
      then Inl (''value '' @ [CHR 0x22] @ js_number n @ [CHR 0x22]
                @ '' is out of range for type integer'')
      else Inr n)"

text \<open>A \<^verbatim>\<open>Date\<close> parameter compared with, or stored in, a \<^verbatim>\<open>DATE\<close> column: node-postgres
  writes the date in the local time of the process, and the day of that text is read.\<close>

definition pg_date :: "server \<Rightarrow> instant \<Rightarrow> day" where
  "pg_date srv t = (t + zone srv t) div 86400000"

text \<open>The \<^verbatim>\<open>VALUES\<close> list of an \<^verbatim>\<open>INSERT\<close> whose text the handler builds. Its tokens are
  parentheses, commas, parameters \<^verbatim>\<open>$n\<close> and quoted strings, in which a doubled quote
  stands for one; white space separates. Anything else is an error here, although
  PostgreSQL reads more (an expression, a cast, a comment).\<close>

datatype sql_item = Param nat | Literal string

datatype sql_token = LParen | RParen | Comma | Item sql_item

datatype mode = Between | InLiteral string | QuoteSeen string | Dollar | InParam nat

definition push :: "sql_token \<Rightarrow> sql_token list option \<Rightarrow> sql_token list option" where
  "push t r = map_option (Cons t) r"

function (sequential) scan :: "mode \<Rightarrow> string \<Rightarrow> sql_token list option" where
  "scan Between [] = Some []"
| "scan (InLiteral acc) [] = None"
| "scan (QuoteSeen acc) [] = Some [Item (Literal acc)]"
| "scan Dollar [] = None"
| "scan (InParam n) [] = Some [Item (Param n)]"
| "scan Between (c # cs) =
     (if is_space c then scan Between cs
      else if c = CHR ''('' then push LParen (scan Between cs)
      else if c = CHR '')'' then push RParen (scan Between cs)
      else if c = CHR '','' then push Comma (scan Between cs)
      else if c = CHR 0x27 then scan (InLiteral []) cs
      else if c = CHR ''$'' then scan Dollar cs
      else None)"
| "scan (InLiteral acc) (c # cs) =
     (if c = CHR 0x27 then scan (QuoteSeen acc) cs else scan (InLiteral (acc @ [c])) cs)"
| "scan (QuoteSeen acc) (c # cs) =
     (if c = CHR 0x27 then scan (InLiteral (acc @ [c])) cs
      else push (Item (Literal acc)) (scan Between (c # cs)))"
| "scan Dollar (c # cs) =
     (case digit c of None \<Rightarrow> None | Some d \<Rightarrow> scan (InParam d) cs)"
| "scan (InParam n) (c # cs) =
     (case digit c of
        None \<Rightarrow> push (Item (Param n)) (scan Between (c # cs))
      | Some d \<Rightarrow> scan (InParam (10 * n + d)) cs)"
  by pat_completeness auto
termination
  by (relation "measure (\<lambda>(m, s). 2 * length s + (case m of Between \<Rightarrow> 0 | _ \<Rightarrow> 1))") auto

text \<open>The rows of the list: \<^verbatim>\<open>(item, ..., item), ..., (item, ..., item)\<close>.\<close>

datatype place = Start | Opened | Held | Closed

fun rows :: "place \<Rightarrow> sql_item list \<Rightarrow> sql_token list \<Rightarrow> sql_item list list option" where
  "rows Closed cur [] = Some []"
| "rows Start cur (LParen # ts) = rows Opened [] ts"
| "rows Opened cur (Item i # ts) = rows Held (cur @ [i]) ts"
| "rows Held cur (Comma # ts) = rows Opened cur ts"
| "rows Held cur (RParen # ts) = map_option (Cons cur) (rows Closed [] ts)"
| "rows Closed cur (Comma # ts) = rows Start [] ts"
| "rows p cur ts = None"

text \<open>A row of
  \<^verbatim>\<open>INSERT INTO notifications (user_id, type, title, message, related_appointment_id)\<close>
  under the statement's parameters, which are integers: the two ids are a parameter or a
  string that reads as an integer, the three texts are strings, and the type and the title
  fit their columns (50 and 200 characters).\<close>

definition id_item :: "int list \<Rightarrow> sql_item \<Rightarrow> int option" where
  "id_item params i =
     (case i of
        Param n \<Rightarrow> if 1 \<le> n \<and> n \<le> length params then Some (params ! (n - 1)) else None
      | Literal s \<Rightarrow> (case int4 s of Inl err \<Rightarrow> None | Inr k \<Rightarrow> Some k))"

definition notification_of :: "int list \<Rightarrow> sql_item list \<Rightarrow> notification_row option" where
  "notification_of params r =
     (case r of
        [u, Literal ty, Literal ti, Literal m, a] \<Rightarrow>
          (case (id_item params u, id_item params a) of
             (Some uid, Some aid) \<Rightarrow>
               if length ty \<le> 50 \<and> length ti \<le> 200
               then Some \<lparr>n_user_id = uid, n_type = ty, n_title = ti, n_message = m,
                          n_related_appointment_id = aid\<rparr>
               else None
           | _ \<Rightarrow> None)
      | _ \<Rightarrow> None)"

definition params_of :: "sql_item list list \<Rightarrow> nat set" where
  "params_of rs = set [n. Param n \<leftarrow> concat rs]"

text \<open>The statement: its text must read as rows, it must name each parameter it is given
  and no other, every row must fit the table, and every row's user and appointment must
  exist. Then the rows are appended.\<close>

definition insert_notifications :: "string \<Rightarrow> int list \<Rightarrow> db \<Rightarrow> string + db" where
  "insert_notifications values_text params database =
     (case scan Between values_text of
        None \<Rightarrow> Inl ''syntax error''
      | Some ts \<Rightarrow>
          (case rows Start [] ts of
             None \<Rightarrow> Inl ''syntax error''
           | Some rs \<Rightarrow>
               if params_of rs \<noteq> {1 .. length params}
               then Inl ''could not determine data type of parameter''
               else (case those (map (notification_of params) rs) of
                       None \<Rightarrow> Inl ''row does not fit the table''
                     | Some ns \<Rightarrow>
                         if list_all (\<lambda>n. n_user_id n \<in> u_id ` set (users database)
                                \<and> n_related_appointment_id n \<in> a_id ` set (appointments database)) ns
                         then Inr (database\<lparr>notifications := notifications database @ ns\<rparr>)
                         else Inl ''violates foreign key constraint'')))"

subsection \<open>\<^verbatim>\<open>config/database.js\<close>\<close>

text \<open>\<^verbatim>\<open>transaction\<close>: \<^verbatim>\<open>BEGIN\<close>, the callback, then \<^verbatim>\<open>COMMIT\<close>; a throw of the callback is
  answered by \<^verbatim>\<open>ROLLBACK\<close> and thrown again. \<^verbatim>\<open>ROLLBACK\<close> gives back the tables of before;
  a sequence keeps the values it has handed out.\<close>

definition transaction :: "(db \<Rightarrow> (string + 'a) \<times> db) \<Rightarrow> db \<Rightarrow> (string + 'a) \<times> db" where
  "transaction callback database =
     (case callback database of
        (Inl err, partial) \<Rightarrow>
          (Inl err, database\<lparr>appointments_id_seq := appointments_id_seq partial\<rparr>)
      | (Inr result, database') \<Rightarrow> (Inr result, database'))"

subsection \<open>\<^verbatim>\<open>POST /\<close>: book an appointment\<close>

record booking_body =
  doctorId :: int
  appointmentDate :: instant
  appointmentTime :: string
  consultationMode :: string
  reasonForVisit :: "string option"

text \<open>The validated \<^verbatim>\<open>value\<close>: the body, and with it the \<^verbatim>\<open>TIME\<close> the database reads from
  the time the pattern accepted.\<close>

record booking_value =
  v_doctorId :: int
  v_appointmentDate :: instant
  v_appointmentTime :: string
  v_time :: time_of_day
  v_consultationMode :: string
  v_reasonForVisit :: "string option"

text \<open>The pattern \<^verbatim>\<open>/^([0-1]?[0-9]|2[0-3]):[0-5][0-9]$/\<close>, with the minutes since midnight
  of a string it matches.\<close>

definition hours :: "string \<Rightarrow> nat option" where
  "hours s =
     (case s of
        [h] \<Rightarrow> digit h
      | [h1, h2] \<Rightarrow>
          (case (digit h1, digit h2) of
             (Some a, Some b) \<Rightarrow>
               if a \<le> 1 \<or> (a = 2 \<and> b \<le> 3) then Some (10 * a + b) else None
           | _ \<Rightarrow> None)
      | _ \<Rightarrow> None)"

definition minutes :: "string \<Rightarrow> nat option" where
  "minutes s =
     (case s of
        [m1, m2] \<Rightarrow>
          (case (digit m1, digit m2) of
             (Some a, Some b) \<Rightarrow> if a \<le> 5 then Some (10 * a + b) else None
           | _ \<Rightarrow> None)
      | _ \<Rightarrow> None)"

definition parse_time :: "string \<Rightarrow> time_of_day option" where
  "parse_time s =
     (let h = takeWhile (\<lambda>c. c \<noteq> CHR '':'') s; m = drop (Suc (length h)) s
      in if length h = length s then None
         else (case (hours h, minutes m) of
                 (Some a, Some b) \<Rightarrow> Some (60 * a + b)
               | _ \<Rightarrow> None))"

text \<open>The Joi schema of the booking, keys in the schema's order, against the server's
  clock. \<^verbatim>\<open>Joi.number()\<close> refuses a number beyond the safe integers, \<^verbatim>\<open>Joi.string()\<close> the
  empty string.\<close>

definition validate_booking :: "server \<Rightarrow> booking_body \<Rightarrow> string + booking_value" where
  "validate_booking srv b =
     (if \<not> (0 < doctorId b \<and> doctorId b \<le> 9007199254740991) then Inl ''doctorId''
      else if appointmentDate b < clock srv then Inl ''appointmentDate''
      else (case parse_time (appointmentTime b) of
              None \<Rightarrow> Inl ''appointmentTime''
            | Some t \<Rightarrow>
                if consultationMode b \<noteq> ''ONLINE'' \<and> consultationMode b \<noteq> ''OFFLINE''
                then Inl ''consultationMode''
                else if (case reasonForVisit b of
                           None \<Rightarrow> False
                         | Some r \<Rightarrow> r = [] \<or> 500 < length r)
                then Inl ''reasonForVisit''
                else Inr \<lparr>v_doctorId = doctorId b, v_appointmentDate = appointmentDate b,
                          v_appointmentTime = appointmentTime b, v_time = t,
                          v_consultationMode = consultationMode b,
                          v_reasonForVisit = reasonForVisit b\<rparr>))"

text \<open>The two queries of the booking: the doctor with the given id who is available and
  whose user is active, joined with that user; and the free slots of the key.\<close>

definition doctorResult :: "db \<Rightarrow> int \<Rightarrow> (doctor_row \<times> user_row) list" where
  "doctorResult database did =
     [(d, u). d \<leftarrow> doctors database, u \<leftarrow> users database,
        d_user_id d = u_id u \<and> d_id d = did \<and> d_is_available d \<and> u_is_active u]"

definition slotResult :: "db \<Rightarrow> int \<Rightarrow> day \<Rightarrow> time_of_day \<Rightarrow> slot_row list" where
  "slotResult database did date time =
     [s \<leftarrow> doctor_time_slots database.
        s_doctor_id s = did \<and> s_slot_date s = date \<and> s_slot_time s = time \<and> \<not> s_is_booked s]"

text \<open>The callback of the booking transaction, in two parts. The first is its two
  \<^verbatim>\<open>SELECT\<close>s with their checks: it writes nothing and ends with the doctor, the doctor's
  user and the slot it found. Reading \<^verbatim>\<open>includes\<close> of a \<^verbatim>\<open>consultation_modes\<close> that is
  \<^verbatim>\<open>NULL\<close> throws a \<^verbatim>\<open>TypeError\<close>.\<close>

definition book_read ::
  "server \<Rightarrow> booking_value \<Rightarrow> db \<Rightarrow> string + doctor_row \<times> user_row \<times> slot_row" where
  "book_read srv v database =
     (case int4_number (v_doctorId v) of
        Inl err \<Rightarrow> Inl err
      | Inr did \<Rightarrow>
          (case doctorResult database did of
             [] \<Rightarrow> Inl ''Doctor not found or not available''
           | (doctor, doctor_user) # _ \<Rightarrow>
               (case d_consultation_modes doctor of
                  None \<Rightarrow> Inl ''Cannot read properties of null (reading 'includes')''
                | Some modes \<Rightarrow>
                    if v_consultationMode v \<notin> set modes
                    then Inl (''Doctor does not support '' @ v_consultationMode v @ '' consultations'')
                    else
                      (case slotResult database did (pg_date srv (v_appointmentDate v)) (v_time v) of
                         [] \<Rightarrow> Inl ''Selected time slot is not available''
                       | slot # _ \<Rightarrow> Inr (doctor, doctor_user, slot)))))"

text \<open>The text after \<^verbatim>\<open>VALUES\<close> of the booking's notifications: the names, the date's
  text and the time are pasted between the quotes of the two messages.\<close>

definition notification_values ::
  "server \<Rightarrow> request_user \<Rightarrow> booking_value \<Rightarrow> user_row \<Rightarrow> string" where
  "notification_values srv user v doctor_user =
     ''($1, 'confirmation', 'Rendez-vous confirme', 'Votre rendez-vous avec Dr. ''
     @ u_first_name doctor_user @ '' '' @ u_last_name doctor_user
     @ '' le '' @ date_text srv (v_appointmentDate v) (v_appointmentTime v)
     @ '' a '' @ v_appointmentTime v
     @ '' a ete confirme.', $2), ($3, 'new_appointment', 'Nouveau rendez-vous', 'Vous avez un nouveau rendez-vous avec ''
     @ user_firstName user @ '' '' @ user_lastName user
     @ '' le '' @ date_text srv (v_appointmentDate v) (v_appointmentTime v)
     @ '' a '' @ v_appointmentTime v @ ''.', $2)''"

text \<open>The second part of the callback is its three writes and the response: the
  appointment's \<^verbatim>\<open>INSERT\<close>, which takes the next id and needs its patient, doctor and slot
  to exist; the slot's \<^verbatim>\<open>UPDATE\<close>; the notifications' \<^verbatim>\<open>INSERT\<close>.\<close>

definition book_write ::
  "server \<Rightarrow> request_user \<Rightarrow> booking_value \<Rightarrow> doctor_row \<times> user_row \<times> slot_row \<Rightarrow> db
     \<Rightarrow> (string + response) \<times> db" where
  "book_write srv user v found database =
     (case found of
        (doctor, doctor_user, slot) \<Rightarrow>
          (let slotId = s_id slot;
               appointment =
                 \<lparr>a_id = appointments_id_seq database + 1,
                  a_patient_id = user_id user,
                  a_doctor_id = v_doctorId v,
                  a_slot_id = slotId,
                  a_appointment_date = pg_date srv (v_appointmentDate v),
                  a_appointment_time = v_time v,
                  a_consultation_mode = v_consultationMode v,
                  a_status = ''scheduled'',
                  a_reason_for_visit = v_reasonForVisit v,
                  a_notes = None,
                  a_prescription = None,
                  a_consultation_fee = d_consultation_fee doctor\<rparr>;
               taken = database\<lparr>appointments_id_seq := appointments_id_seq database + 1\<rparr>
           in if user_id user \<notin> u_id ` set (users database)
                 \<or> v_doctorId v \<notin> d_id ` set (doctors database)
                 \<or> slotId \<notin> s_id ` set (doctor_time_slots database)
              then (Inl ''violates foreign key constraint'', taken)
              else
                (let marked =
                       taken
                         \<lparr>appointments := appointments database @ [appointment],
                          doctor_time_slots :=
                            map (\<lambda>s. if s_id s = slotId then s\<lparr>s_is_booked := True\<rparr> else s)
                              (doctor_time_slots database)\<rparr>
                 in (case insert_notifications (notification_values srv user v doctor_user)
                            [user_id user, a_id appointment, d_user_id doctor] marked of
                       Inl err \<Rightarrow> (Inl err, marked)
                     | Inr database' \<Rightarrow>
                         (Inr (Response 201
                                 (Booked ''Appointment booked successfully'' appointment
                                    (''Dr. '' @ u_first_name doctor_user @ '' ''
                                     @ u_last_name doctor_user))),
                          database')))))"

definition book_callback ::
  "server \<Rightarrow> request_user \<Rightarrow> booking_value \<Rightarrow> db \<Rightarrow> (string + response) \<times> db" where
  "book_callback srv user v database =
     (case book_read srv v database of
        Inl err \<Rightarrow> (Inl err, database)
      | Inr found \<Rightarrow> book_write srv user v found database)"

text \<open>The \<^verbatim>\<open>catch\<close> of the handler sorts the thrown errors by their message.\<close>

definition book_answer :: "string + response \<Rightarrow> response" where
  "book_answer outcome =
     (case outcome of
        Inr res \<Rightarrow> res
      | Inl err \<Rightarrow>
          if str_includes err ''not found'' \<or> str_includes err ''not available''
             \<or> str_includes err ''not support''
          then Response 400 (Failure ''Bad Request'' err)
          else Response 500 (Failure ''Internal Server Error'' ''Failed to book appointment''))"

text \<open>The handler: validation, then the transaction.\<close>

definition bookAppointment :: "server \<Rightarrow> db \<Rightarrow> request_user \<Rightarrow> booking_body \<Rightarrow> response \<times> db" where
  "bookAppointment srv database user b =
     (case validate_booking srv b of
        Inl key \<Rightarrow> (Response 400 (ValidationFailure key), database)
      | Inr v \<Rightarrow>
          (case transaction (book_callback srv user v) database of
             (outcome, database') \<Rightarrow> (book_answer outcome, database')))"

text \<open>The route: \<^verbatim>\<open>router.post('/', authenticateToken, requirePatient, handler)\<close>.\<close>

definition post_appointment :: "server \<Rightarrow> db \<Rightarrow> token \<Rightarrow> booking_body \<Rightarrow> response \<times> db" where
  "post_appointment srv database tok b =
     (case authenticateToken database tok of
        Inl res \<Rightarrow> (res, database)
      | Inr user \<Rightarrow>
          (case requirePatient user of
             Some res \<Rightarrow> (res, database)
           | None \<Rightarrow> bookAppointment srv database user b))"

text \<open>Two validated bookings served at once. Each handler gives way at every \<^verbatim>\<open>await\<close>,
  and each transaction has a connection of its own. In this run both callbacks do their
  \<^verbatim>\<open>SELECT\<close>s before either writes; then the first one's writes and \<^verbatim>\<open>COMMIT\<close>, then the
  second one's. No statement of the callback takes a lock and \<^verbatim>\<open>BEGIN\<close> asks for no
  isolation level, so the second callback's writes go through on the rows the first has
  committed.\<close>

definition interleaved_bookings ::
  "server \<Rightarrow> db \<Rightarrow> request_user \<Rightarrow> booking_value \<Rightarrow> request_user \<Rightarrow> booking_value
     \<Rightarrow> response \<times> response \<times> db" where
  "interleaved_bookings srv database user1 v1 user2 v2 =
     (let found1 = book_read srv v1 database;
          found2 = book_read srv v2 database;
          (outcome1, database1) =
            transaction
              (\<lambda>d. case found1 of Inl err \<Rightarrow> (Inl err, d) | Inr found \<Rightarrow> book_write srv user1 v1 found d)
              database;
          (outcome2, database2) =
            transaction
              (\<lambda>d. case found2 of Inl err \<Rightarrow> (Inl err, d) | Inr found \<Rightarrow> book_write srv user2 v2 found d)
              database1
      in (book_answer outcome1, book_answer outcome2, database2))"

subsection \<open>\<^verbatim>\<open>GET /:id\<close>: one appointment\<close>

text \<open>The handler reads \<^verbatim>\<open>req.doctor?.id\<close>: with no \<^verbatim>\<open>req.doctor\<close> the value is
  \<^verbatim>\<open>undefined\<close>, which \<^verbatim>\<open>===\<close> equates with no \<^verbatim>\<open>doctor_id\<close>.\<close>

definition hasAccess :: "request_user \<Rightarrow> request_doctor option \<Rightarrow> appointment_row \<Rightarrow> bool" where
  "hasAccess user doctor appointment =
     ((user_role user = ''patient'' \<and> a_patient_id appointment = user_id user)
      \<or> (user_role user = ''doctor''
          \<and> (case doctor of None \<Rightarrow> False | Some rd \<Rightarrow> a_doctor_id appointment = doctor_id rd))
      \<or> user_role user = ''admin'')"

text \<open>\<^verbatim>\<open>req.params.id\<close> is the text of the path; the query throws when it is no integer,
  and the handler's \<^verbatim>\<open>catch\<close> answers 500.\<close>

definition getAppointment ::
  "db \<Rightarrow> request_user \<Rightarrow> request_doctor option \<Rightarrow> string \<Rightarrow> response \<times> db" where
  "getAppointment database user doctor appointmentId =
     (case int4 appointmentId of
        Inl err \<Rightarrow>
          (Response 500 (Failure ''Internal Server Error'' ''Failed to fetch appointment details''),
           database)
      | Inr aid \<Rightarrow>
          (case [a. a \<leftarrow> appointments database, u_patient \<leftarrow> users database, d \<leftarrow> doctors database,
                    u_doctor \<leftarrow> users database, s \<leftarrow> specialties database,
                    a_patient_id a = u_id u_patient \<and> a_doctor_id a = d_id d
                    \<and> d_user_id d = u_id u_doctor \<and> d_specialty_id d = s \<and> a_id a = aid] of
             [] \<Rightarrow> (Response 404 (Failure ''Not Found'' ''Appointment not found''), database)
           | appointment # _ \<Rightarrow>
               if \<not> hasAccess user doctor appointment
               then (Response 403
                       (Failure ''Forbidden'' ''You do not have permission to view this appointment''),
                     database)
               else (Response 200 (Details appointment), database)))"

text \<open>The route: \<^verbatim>\<open>router.get('/:id', authenticateToken, handler)\<close>. No middleware of
  this route sets \<^verbatim>\<open>req.doctor\<close>.\<close>

definition get_appointment :: "db \<Rightarrow> token \<Rightarrow> string \<Rightarrow> response \<times> db" where
  "get_appointment database tok appointmentId =
     (case authenticateToken database tok of
        Inl res \<Rightarrow> (res, database)
      | Inr user \<Rightarrow> getAppointment database user None appointmentId)"

subsection \<open>\<^verbatim>\<open>PUT /:id/status\<close>: update the status\<close>

record status_body =
  b_status :: string
  b_notes :: "string option"
  b_prescription :: "string option"

definition validate_status :: "status_body \<Rightarrow> string + status_body" where
  "validate_status b =
     (if b_status b \<notin> {''confirmed'', ''completed'', ''cancelled'', ''no_show''} then Inl ''status''
      else if (case b_notes b of None \<Rightarrow> False | Some n \<Rightarrow> n = [] \<or> 1000 < length n)
      then Inl ''notes''
      else if (case b_prescription b of None \<Rightarrow> False | Some n \<Rightarrow> n = [] \<or> 1000 < length n)
      then Inl ''prescription''
      else Inr b)"

text \<open>The \<^verbatim>\<open>switch\<close> that picks the notification's text.\<close>

definition notificationMessage :: "string \<Rightarrow> string" where
  "notificationMessage st =
     (if st = ''confirmed'' then ''Votre rendez-vous a ete confirme par le medecin.''
      else if st = ''completed'' then ''Votre consultation a ete marquee comme terminee.''
      else if st = ''cancelled'' then ''Votre rendez-vous a ete annule par le medecin.''
      else if st = ''no_show'' then ''Vous avez manque votre rendez-vous.''
      else [])"

text \<open>The query of the status update and of the cancellation: the appointment with the
  given id, joined with its doctor for the doctor's user id.\<close>

definition appointmentResult :: "db \<Rightarrow> int \<Rightarrow> (appointment_row \<times> int) list" where
  "appointmentResult database aid =
     [(a, d_user_id d). a \<leftarrow> appointments database, d \<leftarrow> doctors database,
        a_doctor_id a = d_id d \<and> a_id a = aid]"

definition updateStatus :: "db \<Rightarrow> request_user \<Rightarrow> string \<Rightarrow> status_body \<Rightarrow> response \<times> db" where
  "updateStatus database user appointmentId b =
     (case validate_status b of
        Inl key \<Rightarrow> (Response 400 (ValidationFailure key), database)
      | Inr v \<Rightarrow>
          (case int4 appointmentId of
             Inl err \<Rightarrow>
               (Response 500
                  (Failure ''Internal Server Error'' ''Failed to update appointment status''),
                database)
           | Inr aid \<Rightarrow>
               (case appointmentResult database aid of
                  [] \<Rightarrow> (Response 404 (Failure ''Not Found'' ''Appointment not found''), database)
                | (appointment, doctor_user_id) # _ \<Rightarrow>
                    if doctor_user_id \<noteq> user_id user
                    then (Response 403
                            (Failure ''Forbidden'' ''You can only update your own appointments''),
                          database)
                    else
                      (let rewrite = (\<lambda>a.
                             if a_id a = aid
                             then a\<lparr>a_status := b_status v,
                                    a_notes := (case b_notes v of None \<Rightarrow> a_notes a | Some n \<Rightarrow> Some n),
                                    a_prescription :=
                                      (case b_prescription v of
                                         None \<Rightarrow> a_prescription a
                                       | Some n \<Rightarrow> Some n)\<rparr>
                             else a);
                           updated = map rewrite (appointments database)
                       in (Response 200
                             (Updated ''Appointment status updated successfully''
                                (case [a \<leftarrow> updated. a_id a = aid] of
                                   [] \<Rightarrow> None | a # _ \<Rightarrow> Some a)),
                           database
                             \<lparr>appointments := updated,
                              notifications := notifications database @
                                [\<lparr>n_user_id = a_patient_id appointment, n_type = ''status_update'',
                                  n_title = ''Mise a jour du rendez-vous'',
                                  n_message = notificationMessage (b_status v),
                                  n_related_appointment_id = aid\<rparr>]\<rparr>)))))"

text \<open>The route: \<^verbatim>\<open>router.put('/:id/status', authenticateToken, requireDoctor, handler)\<close>.\<close>

definition put_status :: "db \<Rightarrow> token \<Rightarrow> string \<Rightarrow> status_body \<Rightarrow> response \<times> db" where
  "put_status database tok appointmentId b =
     (case authenticateToken database tok of
        Inl res \<Rightarrow> (res, database)
      | Inr user \<Rightarrow>
          (case requireDoctor database user of
             Inl res \<Rightarrow> (res, database)
           | Inr doctor \<Rightarrow> updateStatus database user appointmentId b))"

subsection \<open>\<^verbatim>\<open>DELETE /:id\<close>: cancel an appointment\<close>

definition canCancel :: "request_user \<Rightarrow> appointment_row \<Rightarrow> int \<Rightarrow> bool" where
  "canCancel user appointment doctor_user_id =
     ((user_role user = ''patient'' \<and> a_patient_id appointment = user_id user)
      \<or> (user_role user = ''doctor'' \<and> doctor_user_id = user_id user)
      \<or> user_role user = ''admin'')"

definition cancel_callback :: "request_user \<Rightarrow> string \<Rightarrow> db \<Rightarrow> (string + response) \<times> db" where
  "cancel_callback user appointmentId database =
     (case int4 appointmentId of
        Inl err \<Rightarrow> (Inl err, database)
      | Inr aid \<Rightarrow>
          (case appointmentResult database aid of
             [] \<Rightarrow> (Inl ''Appointment not found'', database)
           | (appointment, doctor_user_id) # _ \<Rightarrow>
               if \<not> canCancel user appointment doctor_user_id
               then (Inl ''You do not have permission to cancel this appointment'', database)
               else if a_status appointment \<notin> set [''scheduled'', ''confirmed'']
               then (Inl ''Cannot cancel appointment with current status'', database)
               else (Inr (Response 200 (Done ''Appointment cancelled successfully'')),
                     database
                       \<lparr>appointments :=
                          map (\<lambda>a. if a_id a = aid then a\<lparr>a_status := ''cancelled''\<rparr> else a)
                            (appointments database),
                        doctor_time_slots :=
                          map (\<lambda>s. if s_id s = a_slot_id appointment
                                    then s\<lparr>s_is_booked := False\<rparr> else s)
                            (doctor_time_slots database),
                        notifications := notifications database @
                          [if user_role user = ''patient''
                           then \<lparr>n_user_id = doctor_user_id, n_type = ''cancellation'',
                                 n_title = ''Rendez-vous annule'',
                                 n_message = ''Un patient a annule son rendez-vous.'',
                                 n_related_appointment_id = aid\<rparr>
                           else \<lparr>n_user_id = a_patient_id appointment, n_type = ''cancellation'',
                                 n_title = ''Rendez-vous annule'',
                                 n_message = ''Votre rendez-vous a ete annule par le medecin.'',
                                 n_related_appointment_id = aid\<rparr>]\<rparr>)))"

definition cancel_answer :: "string + response \<Rightarrow> response" where
  "cancel_answer outcome =
     (case outcome of
        Inr res \<Rightarrow> res
      | Inl err \<Rightarrow>
          if str_includes err ''not found'' \<or> str_includes err ''permission''
             \<or> str_includes err ''Cannot cancel''
          then Response 400 (Failure ''Bad Request'' err)
          else Response 500 (Failure ''Internal Server Error'' ''Failed to cancel appointment''))"

definition cancelAppointment :: "db \<Rightarrow> request_user \<Rightarrow> string \<Rightarrow> response \<times> db" where
  "cancelAppointment database user appointmentId =
     (case transaction (cancel_callback user appointmentId) database of
        (outcome, database') \<Rightarrow> (cancel_answer outcome, database'))"

text \<open>The route: \<^verbatim>\<open>router.delete('/:id', authenticateToken, handler)\<close>.\<close>

definition delete_appointment :: "db \<Rightarrow> token \<Rightarrow> string \<Rightarrow> response \<times> db" where
  "delete_appointment database tok appointmentId =
     (case authenticateToken database tok of
        Inl res \<Rightarrow> (res, database)
      | Inr user \<Rightarrow> cancelAppointment database user appointmentId)"

subsection \<open>Properties of a database\<close>

text \<open>The fee every appointment carries, by the appointment's id.\<close>

definition fees :: "db \<Rightarrow> (int \<times> int option) list" where
  "fees database = map (\<lambda>a. (a_id a, a_consultation_fee a)) (appointments database)"

text \<open>An appointment is active while it is scheduled or confirmed.\<close>

definition active :: "appointment_row \<Rightarrow> bool" where
  "active a = (a_status a = ''scheduled'' \<or> a_status a = ''confirmed'')"

text \<open>Slots and appointments agree: the slot of every active appointment is booked, a
  booked slot is the slot of exactly one appointment that is not cancelled, and a free
  slot is the slot of no active appointment.\<close>

definition consistent :: "db \<Rightarrow> bool" where
  "consistent database =
     (list_all (\<lambda>a. if active a
                    then list_ex (\<lambda>s. s_id s = a_slot_id a \<and> s_is_booked s)
                           (doctor_time_slots database)
                    else True)
        (appointments database)
      \<and> list_all (\<lambda>s. if s_is_booked s
                       then length [a \<leftarrow> appointments database.
                                      a_slot_id a = s_id s \<and> a_status a \<noteq> ''cancelled''] = 1
                       else [a \<leftarrow> appointments database. a_slot_id a = s_id s \<and> active a] = [])
          (doctor_time_slots database))"

text \<open>What the tables' constraints and the handlers maintain together: slot ids and
  appointment ids are keys, the sequence is not below any appointment's id, the slot of
  every appointment that is not cancelled is booked, and a booked slot is the slot of
  exactly one appointment that is not cancelled.\<close>

definition sound :: "db \<Rightarrow> bool" where
  "sound database \<longleftrightarrow>
     distinct (map s_id (doctor_time_slots database))
     \<and> distinct (map a_id (appointments database))
     \<and> (\<forall>a \<in> set (appointments database). a_id a \<le> appointments_id_seq database)
     \<and> (\<forall>a \<in> set (appointments database). a_status a \<noteq> ''cancelled'' \<longrightarrow>
           (\<exists>s \<in> set (doctor_time_slots database). s_id s = a_slot_id a \<and> s_is_booked s))
     \<and> (\<forall>s \<in> set (doctor_time_slots database). s_is_booked s \<longrightarrow>
           (\<exists>a \<in> set (appointments database). a_slot_id a = s_id s \<and> a_status a \<noteq> ''cancelled''))
     \<and> (\<forall>a \<in> set (appointments database). \<forall>a' \<in> set (appointments database).
           a_slot_id a = a_slot_id a' \<and> a_status a \<noteq> ''cancelled'' \<and> a_status a' \<noteq> ''cancelled''
           \<longrightarrow> a = a')"

subsection \<open>A small clinic\<close>

text \<open>Three patients (users 1, 4 and 5), a doctor (user 2, doctor 10, fee 50.00, both
  modes), an admin (user 3), and one free slot of the doctor on day 19875 (2024-06-01) at
  09:00. The first name of user 5 closes the quote it is pasted into.\<close>

definition clinic :: db where
  "clinic =
     \<lparr>users =
        [\<lparr>u_id = 1, u_first_name = ''Paul'', u_last_name = ''Martin'', u_role = ''patient'',
          u_is_active = True\<rparr>,
         \<lparr>u_id = 2, u_first_name = ''Xavier'', u_last_name = ''Durand'', u_role = ''doctor'',
          u_is_active = True\<rparr>,
         \<lparr>u_id = 3, u_first_name = ''Ada'', u_last_name = ''Roux'', u_role = ''admin'',
          u_is_active = True\<rparr>,
         \<lparr>u_id = 4, u_first_name = ''Pia'', u_last_name = ''Petit'', u_role = ''patient'',
          u_is_active = True\<rparr>,
         \<lparr>u_id = 5,
          u_first_name = ''Eve', $2), ($3, 'new_appointment', 'Nouveau rendez-vous', 'Rappelez le 0800.'',
          u_last_name = ''Noir'', u_role = ''patient'', u_is_active = True\<rparr>],
      doctors =
        [\<lparr>d_id = 10, d_user_id = 2, d_specialty_id = 1, d_consultation_fee = Some 5000,
          d_consultation_modes = Some [''ONLINE'', ''OFFLINE''], d_is_verified = True,
          d_is_available = True\<rparr>],
      specialties = [1],
      doctor_time_slots =
        [\<lparr>s_id = 100, s_doctor_id = 10, s_slot_date = 19875, s_slot_time = 540,
          s_is_booked = False\<rparr>],
      appointments = [],
      appointments_id_seq = 0,
      notifications = []\<rparr>"

text \<open>A server in UTC whose clock is at 12:00 of that day (1717243200000 ms) and whose
  runtime cannot read the date text the handler builds. A booking sent then: its date is
  13:00 UTC of the same day, its time 09:00.\<close>

definition noon :: server where
  "noon = \<lparr>clock = 1717243200000, zone = (\<lambda>t. 0), date_text = (\<lambda>d t. ''Invalid Date'')\<rparr>"

definition morning_request :: booking_body where
  "morning_request =
     \<lparr>doctorId = 10, appointmentDate = 1717246800000, appointmentTime = ''09:00'',
      consultationMode = ''ONLINE'', reasonForVisit = None\<rparr>"

definition morning_value :: booking_value where
  "morning_value =
     \<lparr>v_doctorId = 10, v_appointmentDate = 1717246800000, v_appointmentTime = ''09:00'',
      v_time = 540, v_consultationMode = ''ONLINE'', v_reasonForVisit = None\<rparr>"

text \<open>The clinic after user 1 made that booking.\<close>

definition first_appointment :: appointment_row where
  "first_appointment =
     \<lparr>a_id = 1, a_patient_id = 1, a_doctor_id = 10, a_slot_id = 100, a_appointment_date = 19875,
      a_appointment_time = 540, a_consultation_mode = ''ONLINE'', a_status = ''scheduled'',
      a_reason_for_visit = None, a_notes = None, a_prescription = None,
      a_consultation_fee = Some 5000\<rparr>"

definition booked_clinic :: db where
  "booked_clinic =
     clinic
       \<lparr>doctor_time_slots :=
          [\<lparr>s_id = 100, s_doctor_id = 10, s_slot_date = 19875, s_slot_time = 540,
            s_is_booked = True\<rparr>],
        appointments := [first_appointment],
        appointments_id_seq := 1,
        notifications :=
          [\<lparr>n_user_id = 1, n_type = ''confirmation'', n_title = ''Rendez-vous confirme'',
            n_message =
              ''Votre rendez-vous avec Dr. Xavier Durand le Invalid Date a 09:00 a ete confirme.'',
            n_related_appointment_id = 1\<rparr>,
           \<lparr>n_user_id = 2, n_type = ''new_appointment'', n_title = ''Nouveau rendez-vous'',
            n_message = ''Vous avez un nouveau rendez-vous avec Paul Martin le Invalid Date a 09:00.'',
            n_related_appointment_id = 1\<rparr>]\<rparr>"

definition set_status :: "string \<Rightarrow> status_body" where
  "set_status st = \<lparr>b_status = st, b_notes = None, b_prescription = None\<rparr>"

text \<open>\<^verbatim>\<open>req.user\<close> of the four users, as \<^verbatim>\<open>authenticateToken\<close> attaches it.\<close>

definition paul :: request_user where
  "paul = \<lparr>user_id = 1, user_firstName = ''Paul'', user_lastName = ''Martin'',
     user_role = ''patient'', user_isActive = True\<rparr>"

definition xavier :: request_user where
  "xavier = \<lparr>user_id = 2, user_firstName = ''Xavier'', user_lastName = ''Durand'',
     user_role = ''doctor'', user_isActive = True\<rparr>"

definition ada :: request_user where
  "ada = \<lparr>user_id = 3, user_firstName = ''Ada'', user_lastName = ''Roux'',
     user_role = ''admin'', user_isActive = True\<rparr>"

definition pia :: request_user where
  "pia = \<lparr>user_id = 4, user_firstName = ''Pia'', user_lastName = ''Petit'',
     user_role = ''patient'', user_isActive = True\<rparr>"

definition eve :: request_user where
  "eve = \<lparr>user_id = 5,
     user_firstName = ''Eve', $2), ($3, 'new_appointment', 'Nouveau rendez-vous', 'Rappelez le 0800.'',
     user_lastName = ''Noir'', user_role = ''patient'', user_isActive = True\<rparr>"

text \<open>The clinic whose doctor consults offline only; the clinic whose doctor's modes are
  \<^verbatim>\<open>NULL\<close>; the booked clinic after patient 1 cancelled.\<close>

definition offline_clinic :: db where
  "offline_clinic =
     clinic\<lparr>doctors := map (\<lambda>d. d\<lparr>d_consultation_modes := Some [''OFFLINE'']\<rparr>) (doctors clinic)\<rparr>"

definition null_modes_clinic :: db where
  "null_modes_clinic =
     clinic\<lparr>doctors := map (\<lambda>d. d\<lparr>d_consultation_modes := None\<rparr>) (doctors clinic)\<rparr>"

definition cancelled_clinic :: db where
  "cancelled_clinic = snd (cancelAppointment booked_clinic paul ''1'')"

section \<open>Properties\<close>

subsection \<open>The statement of the booking's notifications\<close>

text \<open>A time the pattern accepts has no apostrophe. Where the names and the date's text
  have none either, the text the handler builds reads as the two rows it means, and the
  statement stores those two notifications.\<close>

lemma digit_not_quote: "digit c = Some d \<Longrightarrow> c \<noteq> CHR 0x27"
  by (auto simp: digit_def Let_def split: if_splits)

lemma hours_no_quote: "hours h = Some a \<Longrightarrow> CHR 0x27 \<notin> set h"
  by (auto simp: hours_def split: list.splits option.splits if_splits dest: digit_not_quote)

lemma minutes_no_quote: "minutes m = Some a \<Longrightarrow> CHR 0x27 \<notin> set m"
  by (auto simp: minutes_def split: list.splits option.splits if_splits dest: digit_not_quote)

lemma parse_time_no_quote:
  assumes "parse_time s = Some t"
  shows "CHR 0x27 \<notin> set s"
proof -
  let ?h = "takeWhile (\<lambda>c. c \<noteq> CHR '':'') s"
  let ?m = "drop (Suc (length ?h)) s"
  from assms have len: "length ?h \<noteq> length s"
    and parts: "hours ?h \<noteq> None" "minutes ?m \<noteq> None"
    by (auto simp: parse_time_def Let_def split: if_splits option.splits)
  have s: "s = ?h @ dropWhile (\<lambda>c. c \<noteq> CHR '':'') s"
    by simp
  from len have "dropWhile (\<lambda>c. c \<noteq> CHR '':'') s \<noteq> []"
    by (metis s append_Nil2)
  then obtain c rest where d: "dropWhile (\<lambda>c. c \<noteq> CHR '':'') s = c # rest"
    by (cases "dropWhile (\<lambda>c. c \<noteq> CHR '':'') s") auto
  then have c: "c = CHR '':''"
    by (metis (mono_tags, lifting) hd_dropWhile list.sel(1) list.distinct(1))
  have "?m = rest"
    using s d by (metis append_eq_conv_conj drop_Suc list.sel(3) tl_drop)
  with parts hours_no_quote minutes_no_quote have "CHR 0x27 \<notin> set ?h" "CHR 0x27 \<notin> set rest"
    by auto
  moreover have "set s = set ?h \<union> set (c # rest)"
    using s d by (metis set_append)
  ultimately show ?thesis using c by auto
qed

lemma validated_time:
  "validate_booking srv b = Inr v \<Longrightarrow> parse_time (v_appointmentTime v) = Some (v_time v)"
  by (auto simp: validate_booking_def split: if_splits option.splits)

lemma scan_literal:
  "CHR 0x27 \<notin> set s \<Longrightarrow> scan (InLiteral acc) (s @ rest) = scan (InLiteral (acc @ s)) rest"
  by (induction s arbitrary: acc) auto

lemma safe_values_rows:
  assumes "CHR 0x27 \<notin> set (u_first_name doctor_user)" "CHR 0x27 \<notin> set (u_last_name doctor_user)"
    "CHR 0x27 \<notin> set (user_firstName user)" "CHR 0x27 \<notin> set (user_lastName user)"
    "CHR 0x27 \<notin> set (date_text srv (v_appointmentDate v) (v_appointmentTime v))"
    "CHR 0x27 \<notin> set (v_appointmentTime v)"
  shows "scan Between (notification_values srv user v doctor_user) =
    Some [LParen, Item (Param 1), Comma, Item (Literal ''confirmation''), Comma,
          Item (Literal ''Rendez-vous confirme''), Comma,
          Item (Literal (''Votre rendez-vous avec Dr. '' @ u_first_name doctor_user @ '' ''
            @ u_last_name doctor_user @ '' le ''
            @ date_text srv (v_appointmentDate v) (v_appointmentTime v) @ '' a ''
            @ v_appointmentTime v @ '' a ete confirme.'')),
          Comma, Item (Param 2), RParen, Comma,
          LParen, Item (Param 3), Comma, Item (Literal ''new_appointment''), Comma,
          Item (Literal ''Nouveau rendez-vous''), Comma,
          Item (Literal (''Vous avez un nouveau rendez-vous avec '' @ user_firstName user @ '' ''
            @ user_lastName user @ '' le ''
            @ date_text srv (v_appointmentDate v) (v_appointmentTime v) @ '' a ''
            @ v_appointmentTime v @ ''.'')),
          Comma, Item (Param 2), RParen]"
  using assms
  by (simp add: notification_values_def push_def digit_def is_space_def scan_literal)


lemma safe_insert:
  assumes safe: "CHR 0x27 \<notin> set (u_first_name doctor_user)" "CHR 0x27 \<notin> set (u_last_name doctor_user)"
    "CHR 0x27 \<notin> set (user_firstName user)" "CHR 0x27 \<notin> set (user_lastName user)"
    "CHR 0x27 \<notin> set (date_text srv (v_appointmentDate v) (v_appointmentTime v))"
    "CHR 0x27 \<notin> set (v_appointmentTime v)"
    and known: "uid \<in> u_id ` set (users database)" "did \<in> u_id ` set (users database)"
      "aid \<in> a_id ` set (appointments database)"
  shows "insert_notifications (notification_values srv user v doctor_user) [uid, aid, did] database =
    Inr (database\<lparr>notifications := notifications database @
      [\<lparr>n_user_id = uid, n_type = ''confirmation'', n_title = ''Rendez-vous confirme'',
        n_message = ''Votre rendez-vous avec Dr. '' @ u_first_name doctor_user @ '' ''
            @ u_last_name doctor_user @ '' le ''
            @ date_text srv (v_appointmentDate v) (v_appointmentTime v) @ '' a ''
            @ v_appointmentTime v @ '' a ete confirme.'',
        n_related_appointment_id = aid\<rparr>,
       \<lparr>n_user_id = did, n_type = ''new_appointment'', n_title = ''Nouveau rendez-vous'',
        n_message = ''Vous avez un nouveau rendez-vous avec '' @ user_firstName user @ '' ''
            @ user_lastName user @ '' le ''
            @ date_text srv (v_appointmentDate v) (v_appointmentTime v) @ '' a ''
            @ v_appointmentTime v @ ''.'',
        n_related_appointment_id = aid\<rparr>]\<rparr>)"
proof -
  have three: "{Suc 0, 2, 3, 2} = {Suc 0..Suc (Suc (Suc 0))}"
    by auto
  show ?thesis
    unfolding insert_notifications_def safe_values_rows [OF safe]
    using known
    by (simp add: params_of_def notification_of_def id_item_def three)
qed

text \<open>Whatever its text, the statement only adds notifications.\<close>

lemma insert_notifications_appends:
  "insert_notifications values_text params database = Inr database' \<Longrightarrow>
   \<exists>ns. database' = database\<lparr>notifications := notifications database @ ns\<rparr>"
  by (auto simp: insert_notifications_def split: option.splits if_splits)

subsection \<open>The queries of the booking\<close>

lemma book_read_found:
  assumes "book_read srv v database = Inr (doctor, doctor_user, slot)"
  shows "- 2147483648 \<le> v_doctorId v \<and> v_doctorId v \<le> 2147483647
    \<and> (\<exists>dr. doctorResult database (v_doctorId v) = (doctor, doctor_user) # dr)
    \<and> (\<exists>modes. d_consultation_modes doctor = Some modes \<and> v_consultationMode v \<in> set modes)
    \<and> (\<exists>sr. slotResult database (v_doctorId v) (pg_date srv (v_appointmentDate v)) (v_time v) =
          slot # sr)"
  using assms
  by (auto simp: book_read_def int4_number_def
      split: if_splits list.splits option.splits prod.splits)

lemma slotResult_member:
  assumes "slotResult database did date time = slot # sr"
  shows "slot \<in> set (doctor_time_slots database) \<and> s_doctor_id slot = did
    \<and> s_slot_date slot = date \<and> s_slot_time slot = time \<and> \<not> s_is_booked slot"
proof -
  from assms have "slot \<in> set (slotResult database did date time)"
    by simp
  then show ?thesis
    by (auto simp: slotResult_def)
qed

lemma set_doctorResult:
  "set (doctorResult database did) =
     {(d, u). d \<in> set (doctors database) \<and> u \<in> set (users database) \<and> d_user_id d = u_id u
        \<and> d_id d = did \<and> d_is_available d \<and> u_is_active u}"
  by (auto simp: doctorResult_def)

lemma doctorResult_member:
  assumes "doctorResult database did = (doctor, doctor_user) # dr"
  shows "doctor \<in> set (doctors database) \<and> doctor_user \<in> set (users database)
    \<and> d_user_id doctor = u_id doctor_user \<and> d_id doctor = did \<and> d_is_available doctor
    \<and> u_is_active doctor_user"
proof -
  from assms have "(doctor, doctor_user) \<in> set (doctorResult database did)"
    by simp
  then show ?thesis
    unfolding set_doctorResult by simp
qed

lemma doctorResult_empty:
  "doctorResult database did = [] \<longleftrightarrow>
     \<not> (\<exists>d \<in> set (doctors database). d_id d = did \<and> d_is_available d
          \<and> (\<exists>u \<in> set (users database). u_id u = d_user_id d \<and> u_is_active u))"
proof -
  have "doctorResult database did = [] \<longleftrightarrow> set (doctorResult database did) = {}"
    by simp
  also have "\<dots> \<longleftrightarrow> \<not> (\<exists>d \<in> set (doctors database). d_id d = did \<and> d_is_available d
          \<and> (\<exists>u \<in> set (users database). u_id u = d_user_id d \<and> u_is_active u))"
    unfolding set_doctorResult by auto
  finally show ?thesis .
qed

lemma slotResult_empty:
  "slotResult database did date time = [] \<longleftrightarrow>
     \<not> (\<exists>s \<in> set (doctor_time_slots database). s_doctor_id s = did \<and> s_slot_date s = date
          \<and> s_slot_time s = time \<and> \<not> s_is_booked s)"
  by (auto simp: slotResult_def filter_empty_conv)

subsection \<open>What a booking does\<close>

text \<open>What the writes of a booking do, whatever the notifications' statement makes of its
  text.\<close>

lemma book_write_outcome:
  assumes "book_write srv user v (doctor, doctor_user, slot) database = (outcome, database')"
  shows "(\<exists>err. outcome = Inl err)
    \<or> (\<exists>new ns.
          outcome = Inr (Response 201 (Booked ''Appointment booked successfully'' new
            (''Dr. '' @ u_first_name doctor_user @ '' '' @ u_last_name doctor_user)))
        \<and> a_id new = appointments_id_seq database + 1 \<and> a_status new = ''scheduled''
        \<and> a_slot_id new = s_id slot \<and> a_patient_id new = user_id user
        \<and> a_doctor_id new = v_doctorId v
        \<and> a_appointment_date new = pg_date srv (v_appointmentDate v)
        \<and> a_appointment_time new = v_time v
        \<and> a_consultation_mode new = v_consultationMode v
        \<and> a_consultation_fee new = d_consultation_fee doctor
        \<and> database' = database
            \<lparr>appointments := appointments database @ [new],
             appointments_id_seq := appointments_id_seq database + 1,
             doctor_time_slots :=
               map (\<lambda>s. if s_id s = s_id slot then s\<lparr>s_is_booked := True\<rparr> else s)
                 (doctor_time_slots database),
             notifications := notifications database @ ns\<rparr>)"
proof (cases outcome)
  case (Inl err)
  then show ?thesis by simp
next
  case (Inr res)
  let ?new = "\<lparr>a_id = appointments_id_seq database + 1, a_patient_id = user_id user,
      a_doctor_id = v_doctorId v, a_slot_id = s_id slot,
      a_appointment_date = pg_date srv (v_appointmentDate v), a_appointment_time = v_time v,
      a_consultation_mode = v_consultationMode v, a_status = ''scheduled'',
      a_reason_for_visit = v_reasonForVisit v, a_notes = None, a_prescription = None,
      a_consultation_fee = d_consultation_fee doctor\<rparr>"
  let ?marked = "database
      \<lparr>appointments_id_seq := appointments_id_seq database + 1,
       appointments := appointments database @ [?new],
       doctor_time_slots :=
         map (\<lambda>s. if s_id s = s_id slot then s\<lparr>s_is_booked := True\<rparr> else s)
           (doctor_time_slots database)\<rparr>"
  from assms Inr have ins: "insert_notifications (notification_values srv user v doctor_user)
      [user_id user, appointments_id_seq database + 1, d_user_id doctor] ?marked = Inr database'"
    and res: "res = Response 201 (Booked ''Appointment booked successfully'' ?new
            (''Dr. '' @ u_first_name doctor_user @ '' '' @ u_last_name doctor_user))"
    by (auto simp: book_write_def Let_def split: if_splits sum.splits)
  from insert_notifications_appends [OF ins] obtain ns where
    "database' = ?marked\<lparr>notifications := notifications ?marked @ ns\<rparr>"
    by blast
  then have "database' = database
            \<lparr>appointments := appointments database @ [?new],
             appointments_id_seq := appointments_id_seq database + 1,
             doctor_time_slots :=
               map (\<lambda>s. if s_id s = s_id slot then s\<lparr>s_is_booked := True\<rparr> else s)
                 (doctor_time_slots database),
             notifications := notifications database @ ns\<rparr>"
    by simp
  with Inr res show ?thesis
    by (intro disjI2 exI [of _ ?new] exI [of _ ns]) simp
qed

text \<open>A transaction whose callback throws leaves the tables as they were; the sequence
  keeps the ids it gave.\<close>

lemma transaction_thrown:
  "fst (transaction callback database) = Inl err \<Longrightarrow>
   \<exists>n. snd (transaction callback database) = database\<lparr>appointments_id_seq := n\<rparr>"
  by (auto simp: transaction_def split: prod.splits sum.splits)


lemma book_write_thrown:
  "book_write srv user v found database = (Inl err, partial) \<Longrightarrow>
   appointments_id_seq partial = appointments_id_seq database + 1"
  by (auto simp: book_write_def Let_def insert_notifications_def
      split: prod.splits if_splits sum.splits option.splits)

lemma book_answer_thrown: "status (book_answer (Inl err)) \<noteq> 201"
  by (simp add: book_answer_def)

text \<open>What a booking does to the database: nothing, or nothing but a step of the
  sequence, when it throws; an appointment on a free slot of the requested key, the slot
  marked, and the notifications its statement made, when it answers 201.\<close>

lemma book_transaction_outcome:
  assumes "transaction (book_callback srv user v) database = (outcome, database')"
  shows "(\<exists>err. outcome = Inl err
          \<and> (database' = database
             \<or> database' = database\<lparr>appointments_id_seq := appointments_id_seq database + 1\<rparr>))
    \<or> (\<exists>doctor doctor_user slot new ns.
          book_read srv v database = Inr (doctor, doctor_user, slot)
        \<and> outcome = Inr (Response 201 (Booked ''Appointment booked successfully'' new
            (''Dr. '' @ u_first_name doctor_user @ '' '' @ u_last_name doctor_user)))
        \<and> a_id new = appointments_id_seq database + 1 \<and> a_status new = ''scheduled''
        \<and> a_slot_id new = s_id slot \<and> a_patient_id new = user_id user
        \<and> a_doctor_id new = v_doctorId v
        \<and> a_appointment_date new = pg_date srv (v_appointmentDate v)
        \<and> a_appointment_time new = v_time v
        \<and> a_consultation_mode new = v_consultationMode v
        \<and> a_consultation_fee new = d_consultation_fee doctor
        \<and> database' = database
            \<lparr>appointments := appointments database @ [new],
             appointments_id_seq := appointments_id_seq database + 1,
             doctor_time_slots :=
               map (\<lambda>s. if s_id s = s_id slot then s\<lparr>s_is_booked := True\<rparr> else s)
                 (doctor_time_slots database),
             notifications := notifications database @ ns\<rparr>)"
proof (cases "book_read srv v database")
  case (Inl err)
  with assms show ?thesis
    by (auto simp: transaction_def book_callback_def)
next
  case (Inr found)
  obtain doctor doctor_user slot where found: "found = (doctor, doctor_user, slot)"
    by (cases found)
  obtain result after where w: "book_write srv user v (doctor, doctor_user, slot) database = (result, after)"
    by (cases "book_write srv user v (doctor, doctor_user, slot) database")
  show ?thesis
  proof (cases result)
    case (Inl err)
    from book_write_thrown [OF w [unfolded Inl]] assms Inr found w Inl show ?thesis
      by (auto simp: transaction_def book_callback_def)
  next
    case right: (Inr res)
    from assms Inr found w right have same: "outcome = result" "database' = after"
      by (auto simp: transaction_def book_callback_def)
    from book_write_outcome [OF w] right same Inr found show ?thesis
      by auto
  qed
qed

lemma bookAppointment_thrown:
  assumes "status (fst (bookAppointment srv database user b)) \<noteq> 201"
  shows "snd (bookAppointment srv database user b) = database
    \<or> snd (bookAppointment srv database user b) =
        database\<lparr>appointments_id_seq := appointments_id_seq database + 1\<rparr>"
proof (cases "validate_booking srv b")
  case (Inl key)
  then show ?thesis
    by (simp add: bookAppointment_def)
next
  case (Inr v)
  obtain outcome database' where t: "transaction (book_callback srv user v) database = (outcome, database')"
    by (cases "transaction (book_callback srv user v) database")
  with Inr have r: "bookAppointment srv database user b = (book_answer outcome, database')"
    by (simp add: bookAppointment_def)
  from book_transaction_outcome [OF t] assms r show ?thesis
    by (auto simp: book_answer_def)
qed

lemma bookAppointment_created:
  assumes "bookAppointment srv database user b = (res, database')" and "status res = 201"
  shows "\<exists>v doctor doctor_user slot new ns.
      validate_booking srv b = Inr v
    \<and> book_read srv v database = Inr (doctor, doctor_user, slot)
    \<and> res = Response 201 (Booked ''Appointment booked successfully'' new
        (''Dr. '' @ u_first_name doctor_user @ '' '' @ u_last_name doctor_user))
    \<and> a_id new = appointments_id_seq database + 1 \<and> a_status new = ''scheduled''
    \<and> a_slot_id new = s_id slot \<and> a_patient_id new = user_id user
    \<and> a_doctor_id new = v_doctorId v
    \<and> a_appointment_date new = pg_date srv (v_appointmentDate v)
    \<and> a_appointment_time new = v_time v
    \<and> a_consultation_mode new = v_consultationMode v
    \<and> a_consultation_fee new = d_consultation_fee doctor
    \<and> database' = database
        \<lparr>appointments := appointments database @ [new],
         appointments_id_seq := appointments_id_seq database + 1,
         doctor_time_slots :=
           map (\<lambda>s. if s_id s = s_id slot then s\<lparr>s_is_booked := True\<rparr> else s)
             (doctor_time_slots database),
         notifications := notifications database @ ns\<rparr>"
proof (cases "validate_booking srv b")
  case (Inl key)
  with assms show ?thesis
    by (auto simp: bookAppointment_def)
next
  case (Inr v)
  obtain outcome after where t: "transaction (book_callback srv user v) database = (outcome, after)"
    by (cases "transaction (book_callback srv user v) database")
  with Inr assms have r: "res = book_answer outcome" "database' = after"
    by (auto simp: bookAppointment_def)
  from book_transaction_outcome [OF t] show ?thesis
  proof
    assume "\<exists>err. outcome = Inl err
        \<and> (after = database
           \<or> after = database\<lparr>appointments_id_seq := appointments_id_seq database + 1\<rparr>)"
    with r assms(2) book_answer_thrown show ?thesis
      by auto
  next
    assume "\<exists>doctor doctor_user slot new ns.
          book_read srv v database = Inr (doctor, doctor_user, slot)
        \<and> outcome = Inr (Response 201 (Booked ''Appointment booked successfully'' new
            (''Dr. '' @ u_first_name doctor_user @ '' '' @ u_last_name doctor_user)))
        \<and> a_id new = appointments_id_seq database + 1 \<and> a_status new = ''scheduled''
        \<and> a_slot_id new = s_id slot \<and> a_patient_id new = user_id user
        \<and> a_doctor_id new = v_doctorId v
        \<and> a_appointment_date new = pg_date srv (v_appointmentDate v)
        \<and> a_appointment_time new = v_time v
        \<and> a_consultation_mode new = v_consultationMode v
        \<and> a_consultation_fee new = d_consultation_fee doctor
        \<and> after = database
            \<lparr>appointments := appointments database @ [new],
             appointments_id_seq := appointments_id_seq database + 1,
             doctor_time_slots :=
               map (\<lambda>s. if s_id s = s_id slot then s\<lparr>s_is_booked := True\<rparr> else s)
                 (doctor_time_slots database),
             notifications := notifications database @ ns\<rparr>"
    then obtain doctor doctor_user slot new ns where
      "book_read srv v database = Inr (doctor, doctor_user, slot)"
      "outcome = Inr (Response 201 (Booked ''Appointment booked successfully'' new
            (''Dr. '' @ u_first_name doctor_user @ '' '' @ u_last_name doctor_user)))"
      "a_id new = appointments_id_seq database + 1" "a_status new = ''scheduled''"
      "a_slot_id new = s_id slot" "a_patient_id new = user_id user"
      "a_doctor_id new = v_doctorId v"
      "a_appointment_date new = pg_date srv (v_appointmentDate v)"
      "a_appointment_time new = v_time v"
      "a_consultation_mode new = v_consultationMode v"
      "a_consultation_fee new = d_consultation_fee doctor"
      "after = database
            \<lparr>appointments := appointments database @ [new],
             appointments_id_seq := appointments_id_seq database + 1,
             doctor_time_slots :=
               map (\<lambda>s. if s_id s = s_id slot then s\<lparr>s_is_booked := True\<rparr> else s)
                 (doctor_time_slots database),
             notifications := notifications database @ ns\<rparr>"
      by blast
    with Inr r show ?thesis
      by (intro exI [of _ v] exI [of _ doctor] exI [of _ doctor_user] exI [of _ slot]
          exI [of _ new] exI [of _ ns]) (simp add: book_answer_def)
  qed
qed


text \<open>With no apostrophe in the names and in the date's text, the statement reads as the
  two rows the handler means, and the booking that finds its doctor and slot stores
  exactly those two notifications.\<close>

lemma bookAppointment_two_notifications:
  assumes v: "validate_booking srv b = Inr v"
    and found: "book_read srv v database = Inr (doctor, doctor_user, slot)"
    and patient: "user_id user \<in> u_id ` set (users database)"
    and safe: "CHR 0x27 \<notin> set (u_first_name doctor_user)" "CHR 0x27 \<notin> set (u_last_name doctor_user)"
      "CHR 0x27 \<notin> set (user_firstName user)" "CHR 0x27 \<notin> set (user_lastName user)"
      "CHR 0x27 \<notin> set (date_text srv (v_appointmentDate v) (v_appointmentTime v))"
  shows "bookAppointment srv database user b =
    (Response 201 (Booked ''Appointment booked successfully''
       \<lparr>a_id = appointments_id_seq database + 1, a_patient_id = user_id user,
        a_doctor_id = v_doctorId v, a_slot_id = s_id slot,
        a_appointment_date = pg_date srv (v_appointmentDate v), a_appointment_time = v_time v,
        a_consultation_mode = v_consultationMode v, a_status = ''scheduled'',
        a_reason_for_visit = v_reasonForVisit v, a_notes = None, a_prescription = None,
        a_consultation_fee = d_consultation_fee doctor\<rparr>
       (''Dr. '' @ u_first_name doctor_user @ '' '' @ u_last_name doctor_user)),
     database
       \<lparr>appointments_id_seq := appointments_id_seq database + 1,
        appointments := appointments database @
          [\<lparr>a_id = appointments_id_seq database + 1, a_patient_id = user_id user,
            a_doctor_id = v_doctorId v, a_slot_id = s_id slot,
            a_appointment_date = pg_date srv (v_appointmentDate v), a_appointment_time = v_time v,
            a_consultation_mode = v_consultationMode v, a_status = ''scheduled'',
            a_reason_for_visit = v_reasonForVisit v, a_notes = None, a_prescription = None,
            a_consultation_fee = d_consultation_fee doctor\<rparr>],
        doctor_time_slots :=
          map (\<lambda>s. if s_id s = s_id slot then s\<lparr>s_is_booked := True\<rparr> else s)
            (doctor_time_slots database),
        notifications := notifications database @
          [\<lparr>n_user_id = user_id user, n_type = ''confirmation'', n_title = ''Rendez-vous confirme'',
            n_message = ''Votre rendez-vous avec Dr. '' @ u_first_name doctor_user @ '' ''
              @ u_last_name doctor_user @ '' le ''
              @ date_text srv (v_appointmentDate v) (v_appointmentTime v) @ '' a ''
              @ v_appointmentTime v @ '' a ete confirme.'',
            n_related_appointment_id = appointments_id_seq database + 1\<rparr>,
           \<lparr>n_user_id = d_user_id doctor, n_type = ''new_appointment'',
            n_title = ''Nouveau rendez-vous'',
            n_message = ''Vous avez un nouveau rendez-vous avec '' @ user_firstName user @ '' ''
              @ user_lastName user @ '' le ''
              @ date_text srv (v_appointmentDate v) (v_appointmentTime v) @ '' a ''
              @ v_appointmentTime v @ ''.'',
            n_related_appointment_id = appointments_id_seq database + 1\<rparr>]\<rparr>)"
proof -
  let ?new = "\<lparr>a_id = appointments_id_seq database + 1, a_patient_id = user_id user,
      a_doctor_id = v_doctorId v, a_slot_id = s_id slot,
      a_appointment_date = pg_date srv (v_appointmentDate v), a_appointment_time = v_time v,
      a_consultation_mode = v_consultationMode v, a_status = ''scheduled'',
      a_reason_for_visit = v_reasonForVisit v, a_notes = None, a_prescription = None,
      a_consultation_fee = d_consultation_fee doctor\<rparr>"
  let ?marked = "database
      \<lparr>appointments_id_seq := appointments_id_seq database + 1,
       appointments := appointments database @ [?new],
       doctor_time_slots :=
         map (\<lambda>s. if s_id s = s_id slot then s\<lparr>s_is_booked := True\<rparr> else s)
           (doctor_time_slots database)\<rparr>"
  from book_read_found [OF found] obtain dr sr where
    d: "doctorResult database (v_doctorId v) = (doctor, doctor_user) # dr"
    and s: "slotResult database (v_doctorId v) (pg_date srv (v_appointmentDate v)) (v_time v) =
          slot # sr"
    by blast
  from doctorResult_member [OF d] have doctor: "doctor \<in> set (doctors database)"
    "d_id doctor = v_doctorId v" "doctor_user \<in> set (users database)"
    "d_user_id doctor = u_id doctor_user"
    by simp_all
  from slotResult_member [OF s] have slot: "slot \<in> set (doctor_time_slots database)"
    by simp
  have keys: "v_doctorId v \<in> d_id ` set (doctors database)"
    "s_id slot \<in> s_id ` set (doctor_time_slots database)"
    "d_user_id doctor \<in> u_id ` set (users database)"
    using doctor slot by force+
  have time: "CHR 0x27 \<notin> set (v_appointmentTime v)"
    using validated_time [OF v] by (rule parse_time_no_quote)
  have "user_id user \<in> u_id ` set (users ?marked)" "d_user_id doctor \<in> u_id ` set (users ?marked)"
    "appointments_id_seq database + 1 \<in> a_id ` set (appointments ?marked)"
    using patient keys(3) by simp_all
  note ins = safe_insert [OF safe time this]
  have "book_write srv user v (doctor, doctor_user, slot) database =
      (Inr (Response 201 (Booked ''Appointment booked successfully'' ?new
          (''Dr. '' @ u_first_name doctor_user @ '' '' @ u_last_name doctor_user))),
       ?marked\<lparr>notifications := notifications ?marked @
          [\<lparr>n_user_id = user_id user, n_type = ''confirmation'', n_title = ''Rendez-vous confirme'',
            n_message = ''Votre rendez-vous avec Dr. '' @ u_first_name doctor_user @ '' ''
              @ u_last_name doctor_user @ '' le ''
              @ date_text srv (v_appointmentDate v) (v_appointmentTime v) @ '' a ''
              @ v_appointmentTime v @ '' a ete confirme.'',
            n_related_appointment_id = appointments_id_seq database + 1\<rparr>,
           \<lparr>n_user_id = d_user_id doctor, n_type = ''new_appointment'',
            n_title = ''Nouveau rendez-vous'',
            n_message = ''Vous avez un nouveau rendez-vous avec '' @ user_firstName user @ '' ''
              @ user_lastName user @ '' le ''
              @ date_text srv (v_appointmentDate v) (v_appointmentTime v) @ '' a ''
              @ v_appointmentTime v @ ''.'',
            n_related_appointment_id = appointments_id_seq database + 1\<rparr>]\<rparr>)"
    unfolding book_write_def using patient keys(1,2) by (simp add: Let_def ins)
  with v found show ?thesis
    by (simp add: bookAppointment_def transaction_def book_callback_def book_answer_def)
qed

text \<open>The doctor that the booking finds is an available doctor of the requested id with
  an active user and the requested mode, and the slot it finds is a free slot of the
  requested doctor, day and time.\<close>

lemma book_read_meets_request:
  assumes "book_read srv v database = Inr (doctor, doctor_user, slot)"
  shows "doctor \<in> set (doctors database) \<and> d_id doctor = v_doctorId v \<and> d_is_available doctor
    \<and> doctor_user \<in> set (users database) \<and> u_id doctor_user = d_user_id doctor
    \<and> u_is_active doctor_user
    \<and> (\<exists>modes. d_consultation_modes doctor = Some modes \<and> v_consultationMode v \<in> set modes)
    \<and> slot \<in> set (doctor_time_slots database) \<and> s_doctor_id slot = v_doctorId v
    \<and> s_slot_date slot = pg_date srv (v_appointmentDate v) \<and> s_slot_time slot = v_time v
    \<and> \<not> s_is_booked slot"
proof -
  from book_read_found [OF assms] obtain dr sr where
    d: "doctorResult database (v_doctorId v) = (doctor, doctor_user) # dr"
    and m: "\<exists>modes. d_consultation_modes doctor = Some modes \<and> v_consultationMode v \<in> set modes"
    and s: "slotResult database (v_doctorId v) (pg_date srv (v_appointmentDate v)) (v_time v) =
          slot # sr"
    by blast
  from doctorResult_member [OF d] slotResult_member [OF s] m show ?thesis
    by simp
qed

text \<open>The thrown errors of the booking that the \<^verbatim>\<open>catch\<close> sorts as 400.\<close>

lemma bookAppointment_no_doctor:
  assumes "validate_booking srv b = Inr v"
    and "- 2147483648 \<le> v_doctorId v" "v_doctorId v \<le> 2147483647"
    and "doctorResult database (v_doctorId v) = []"
  shows "bookAppointment srv database user b =
    (Response 400 (Failure ''Bad Request'' ''Doctor not found or not available''), database)"
  using assms
  by (simp add: bookAppointment_def transaction_def book_callback_def book_read_def
      int4_number_def book_answer_def)

lemma bookAppointment_mode:
  assumes "validate_booking srv b = Inr v"
    and "- 2147483648 \<le> v_doctorId v" "v_doctorId v \<le> 2147483647"
    and "doctorResult database (v_doctorId v) = (doctor, doctor_user) # rest"
    and "d_consultation_modes doctor = Some modes" and "v_consultationMode v \<notin> set modes"
  shows "bookAppointment srv database user b =
    (Response 400 (Failure ''Bad Request''
       (''Doctor does not support '' @ v_consultationMode v @ '' consultations'')), database)"
  using assms
  by (simp add: bookAppointment_def transaction_def book_callback_def book_read_def
      int4_number_def book_answer_def)

lemma bookAppointment_no_slot:
  assumes "validate_booking srv b = Inr v"
    and "- 2147483648 \<le> v_doctorId v" "v_doctorId v \<le> 2147483647"
    and "doctorResult database (v_doctorId v) = (doctor, doctor_user) # rest"
    and "d_consultation_modes doctor = Some modes" and "v_consultationMode v \<in> set modes"
    and "slotResult database (v_doctorId v) (pg_date srv (v_appointmentDate v)) (v_time v) = []"
  shows "bookAppointment srv database user b =
    (Response 400 (Failure ''Bad Request'' ''Selected time slot is not available''), database)"
  using assms
  by (simp add: bookAppointment_def transaction_def book_callback_def book_read_def
      int4_number_def book_answer_def)

text \<open>The thrown errors it sorts as 500: a doctor whose modes are \<^verbatim>\<open>NULL\<close>, and a doctor
  id that no \<^verbatim>\<open>INTEGER\<close> holds.\<close>

lemma bookAppointment_null_modes:
  assumes "validate_booking srv b = Inr v"
    and "- 2147483648 \<le> v_doctorId v" "v_doctorId v \<le> 2147483647"
    and "doctorResult database (v_doctorId v) = (doctor, doctor_user) # rest"
    and "d_consultation_modes doctor = None"
  shows "bookAppointment srv database user b =
    (Response 500 (Failure ''Internal Server Error'' ''Failed to book appointment''), database)"
  using assms
  by (simp add: bookAppointment_def transaction_def book_callback_def book_read_def
      int4_number_def book_answer_def)

subsection \<open>A booked key is refused\<close>

text \<open>The table allows one slot for a doctor, day and time. Then a booking that got 201
  leaves no free slot of its key, and the next request for the same doctor, day, time and
  mode, served after it, is answered \<^verbatim>\<open>Selected time slot is not available\<close>, whoever
  sends it, with nothing changed.\<close>

lemma slot_key_taken:
  assumes uniq: "distinct (map (\<lambda>s. (s_doctor_id s, s_slot_date s, s_slot_time s)) slots)"
    and hit: "[s \<leftarrow> slots. s_doctor_id s = did \<and> s_slot_date s = date \<and> s_slot_time s = time
                 \<and> \<not> s_is_booked s] = slot # sr"
  shows "[s \<leftarrow> map (\<lambda>s. if s_id s = s_id slot then s\<lparr>s_is_booked := True\<rparr> else s) slots.
            s_doctor_id s = did \<and> s_slot_date s = date \<and> s_slot_time s = time
            \<and> \<not> s_is_booked s] = []"
proof -
  let ?key = "\<lambda>s. (s_doctor_id s, s_slot_date s, s_slot_time s)"
  from hit have "slot \<in> set [s \<leftarrow> slots. s_doctor_id s = did \<and> s_slot_date s = date
      \<and> s_slot_time s = time \<and> \<not> s_is_booked s]"
    by simp
  then have slot: "slot \<in> set slots" "?key slot = (did, date, time)"
    by auto
  have "s_id s = s_id slot" if "s \<in> set slots" "?key s = (did, date, time)" for s
  proof -
    from uniq have "inj_on ?key (set slots)"
      by (simp add: distinct_map)
    with that slot have "s = slot"
      by (auto dest: inj_onD)
    then show ?thesis by simp
  qed
  then show ?thesis
    by (auto simp: filter_empty_conv)
qed


lemma booked_key_is_refused:
  assumes uniq: "distinct (map (\<lambda>s. (s_doctor_id s, s_slot_date s, s_slot_time s))
        (doctor_time_slots database))"
    and first: "bookAppointment srv database user b = (res, database')" "status res = 201"
    and v: "validate_booking srv b = Inr v"
    and v': "validate_booking srv' b' = Inr v'"
    and key: "v_doctorId v' = v_doctorId v"
      "pg_date srv' (v_appointmentDate v') = pg_date srv (v_appointmentDate v)"
      "v_time v' = v_time v"
    and mode: "v_consultationMode v' = v_consultationMode v"
  shows "bookAppointment srv' database' user' b' =
    (Response 400 (Failure ''Bad Request'' ''Selected time slot is not available''), database')"
proof -
  from bookAppointment_created [OF first] v obtain doctor doctor_user slot new ns where
    found: "book_read srv v database = Inr (doctor, doctor_user, slot)"
    and after: "database' = database
        \<lparr>appointments := appointments database @ [new],
         appointments_id_seq := appointments_id_seq database + 1,
         doctor_time_slots :=
           map (\<lambda>s. if s_id s = s_id slot then s\<lparr>s_is_booked := True\<rparr> else s)
             (doctor_time_slots database),
         notifications := notifications database @ ns\<rparr>"
    by auto
  from book_read_found [OF found] obtain dr modes sr where
    range: "- 2147483648 \<le> v_doctorId v" "v_doctorId v \<le> 2147483647"
    and d: "doctorResult database (v_doctorId v) = (doctor, doctor_user) # dr"
      "d_consultation_modes doctor = Some modes" "v_consultationMode v \<in> set modes"
    and hit: "slotResult database (v_doctorId v) (pg_date srv (v_appointmentDate v)) (v_time v) =
        slot # sr"
    by blast
  from after have same: "doctorResult database' (v_doctorId v) = doctorResult database (v_doctorId v)"
    by (simp add: doctorResult_def)
  from slot_key_taken [OF uniq hit [unfolded slotResult_def]] after
  have gone: "slotResult database' (v_doctorId v) (pg_date srv (v_appointmentDate v)) (v_time v) = []"
    by (simp add: slotResult_def)
  show ?thesis
    using bookAppointment_no_slot [OF v', of database' doctor doctor_user dr modes user']
      range d same gone key mode
    by simp
qed

subsection \<open>The fee of an appointment stays\<close>

text \<open>No handler rewrites the fee an appointment carries: a booking adds at most one
  appointment after the others, a status update and a cancellation keep every fee.\<close>

lemma fees_book:
  "take (length (fees database)) (fees (snd (bookAppointment srv database user b))) = fees database"
proof (cases "status (fst (bookAppointment srv database user b)) = 201")
  case False
  from bookAppointment_thrown [OF this] show ?thesis
    by (auto simp: fees_def)
next
  case True
  obtain res database' where r: "bookAppointment srv database user b = (res, database')"
    by (cases "bookAppointment srv database user b")
  with True bookAppointment_created [OF r] obtain new where
    "appointments database' = appointments database @ [new]"
    by auto
  with r show ?thesis by (simp add: fees_def)
qed

lemma fees_update:
  "fees (snd (updateStatus database user appointmentId sb)) = fees database"
  by (auto simp: updateStatus_def fees_def Let_def split: sum.splits list.splits prod.splits)

lemma fees_cancel:
  "fees (snd (cancelAppointment database user appointmentId)) = fees database"
  by (auto simp: cancelAppointment_def transaction_def cancel_callback_def fees_def
      split: sum.splits list.splits prod.splits if_splits)

subsection \<open>Cancellation\<close>

text \<open>The query of the cancellation pairs the appointment of the given id with the user
  of the doctor it is with.\<close>

lemma set_appointmentResult:
  "set (appointmentResult database aid) =
     {(a, uid). a \<in> set (appointments database) \<and> a_id a = aid
        \<and> (\<exists>d \<in> set (doctors database). d_id d = a_doctor_id a \<and> d_user_id d = uid)}"
  apply (auto simp: appointmentResult_def)
  subgoal for a d by (rule bexI [of _ d]) simp_all
  done

lemma appointmentResult_row:
  assumes "appointmentResult database aid = (a, doctor_user_id) # rest"
  shows "a \<in> set (appointments database) \<and> a_id a = aid
    \<and> (\<exists>d \<in> set (doctors database). d_id d = a_doctor_id a \<and> d_user_id d = doctor_user_id)"
proof -
  from assms have "(a, doctor_user_id) \<in> set (appointmentResult database aid)"
    by simp
  then show ?thesis
    unfolding set_appointmentResult by simp
qed

lemma appointmentResult_none:
  "appointmentResult database aid = [] \<longleftrightarrow>
     \<not> (\<exists>a \<in> set (appointments database). a_id a = aid
          \<and> (\<exists>d \<in> set (doctors database). d_id d = a_doctor_id a))"
proof -
  have "appointmentResult database aid = [] \<longleftrightarrow> set (appointmentResult database aid) = {}"
    by simp
  also have "\<dots> \<longleftrightarrow> \<not> (\<exists>a \<in> set (appointments database). a_id a = aid
          \<and> (\<exists>d \<in> set (doctors database). d_id d = a_doctor_id a))"
    unfolding set_appointmentResult by auto
  finally show ?thesis .
qed

text \<open>The outcomes of a cancellation whose id reads as an \<^verbatim>\<open>INTEGER\<close>.\<close>

lemma cancelAppointment_not_found:
  assumes "int4 appointmentId = Inr aid" and "appointmentResult database aid = []"
  shows "cancelAppointment database user appointmentId =
    (Response 400 (Failure ''Bad Request'' ''Appointment not found''), database)"
  using assms
  by (simp add: cancelAppointment_def transaction_def cancel_callback_def cancel_answer_def)

lemma cancelAppointment_forbidden:
  assumes "int4 appointmentId = Inr aid"
    and "appointmentResult database aid = (a, doctor_user_id) # rest"
    and "\<not> canCancel user a doctor_user_id"
  shows "cancelAppointment database user appointmentId =
    (Response 400 (Failure ''Bad Request'' ''You do not have permission to cancel this appointment''),
     database)"
  using assms
  by (simp add: cancelAppointment_def transaction_def cancel_callback_def cancel_answer_def)

lemma cancelAppointment_invalid_state:
  assumes "int4 appointmentId = Inr aid"
    and "appointmentResult database aid = (a, doctor_user_id) # rest"
    and "canCancel user a doctor_user_id"
    and "a_status a \<noteq> ''scheduled''" and "a_status a \<noteq> ''confirmed''"
  shows "cancelAppointment database user appointmentId =
    (Response 400 (Failure ''Bad Request'' ''Cannot cancel appointment with current status''),
     database)"
  using assms
  by (simp add: cancelAppointment_def transaction_def cancel_callback_def cancel_answer_def)

lemma cancelAppointment_success:
  assumes "int4 appointmentId = Inr aid"
    and "appointmentResult database aid = (a, doctor_user_id) # rest"
    and "canCancel user a doctor_user_id"
    and "a_status a = ''scheduled'' \<or> a_status a = ''confirmed''"
  shows "\<exists>n. cancelAppointment database user appointmentId =
      (Response 200 (Done ''Appointment cancelled successfully''),
       database
         \<lparr>appointments :=
            map (\<lambda>x. if a_id x = aid then x\<lparr>a_status := ''cancelled''\<rparr> else x)
              (appointments database),
          doctor_time_slots :=
            map (\<lambda>s. if s_id s = a_slot_id a then s\<lparr>s_is_booked := False\<rparr> else s)
              (doctor_time_slots database),
          notifications := notifications database @ [n]\<rparr>)"
  using assms
  by (auto simp: cancelAppointment_def transaction_def cancel_callback_def cancel_answer_def)

text \<open>An id that does not read as an \<^verbatim>\<open>INTEGER\<close> makes the query throw; the answer is 400
  or 500 by the words of PostgreSQL's message, which quotes the id, and nothing
  changes.\<close>

lemma cancelAppointment_unreadable:
  assumes "int4 appointmentId = Inl err"
  shows "cancelAppointment database user appointmentId = (cancel_answer (Inl err), database)"
  using assms
  by (simp add: cancelAppointment_def transaction_def cancel_callback_def)

subsection \<open>Bookings and cancellations keep slots and appointments in agreement\<close>

text \<open>A sound database is consistent, and \<^verbatim>\<open>POST /\<close> and \<^verbatim>\<open>DELETE /:id\<close>, served one
  request at a time, take a sound database to a sound one, whatever they answer.\<close>

lemma length_one:
  assumes "distinct xs" and "x \<in> set xs" and "\<forall>y \<in> set xs. y = x"
  shows "length xs = 1"
proof (cases xs)
  case Nil
  with assms(2) show ?thesis by simp
next
  case (Cons y ys)
  have "ys = []"
  proof (cases ys)
    case Nil
    then show ?thesis .
  next
    case (Cons z zs)
    with \<open>xs = y # ys\<close> assms(3) have "y = x" "z = x" by auto
    with Cons \<open>xs = y # ys\<close> assms(1) show ?thesis by simp
  qed
  with Cons show ?thesis by simp
qed

lemma sound_consistent:
  assumes "sound database"
  shows "consistent database"
proof -
  let ?slots = "doctor_time_slots database" and ?appts = "appointments database"
  from assms have ds: "distinct (map s_id ?slots)" and da: "distinct (map a_id ?appts)"
    and held: "\<And>a. a \<in> set ?appts \<Longrightarrow> a_status a \<noteq> ''cancelled'' \<Longrightarrow>
        \<exists>s \<in> set ?slots. s_id s = a_slot_id a \<and> s_is_booked s"
    and used: "\<And>s. s \<in> set ?slots \<Longrightarrow> s_is_booked s \<Longrightarrow>
        \<exists>a \<in> set ?appts. a_slot_id a = s_id s \<and> a_status a \<noteq> ''cancelled''"
    and once: "\<And>a a'. a \<in> set ?appts \<Longrightarrow> a' \<in> set ?appts \<Longrightarrow> a_slot_id a = a_slot_id a' \<Longrightarrow>
        a_status a \<noteq> ''cancelled'' \<Longrightarrow> a_status a' \<noteq> ''cancelled'' \<Longrightarrow> a = a'"
    unfolding sound_def by blast+
  have live: "a_status a \<noteq> ''cancelled''" if "active a" for a
    using that by (auto simp: active_def)
  have one: "list_ex (\<lambda>s. s_id s = a_slot_id a \<and> s_is_booked s) ?slots"
    if "a \<in> set ?appts" "active a" for a
    using held [OF that(1) live [OF that(2)]] by (simp add: list_ex_iff)
  have two: "length [a \<leftarrow> ?appts. a_slot_id a = s_id s \<and> a_status a \<noteq> ''cancelled''] = 1"
    if s: "s \<in> set ?slots" "s_is_booked s" for s
  proof -
    from used [OF s] obtain a where
      a: "a \<in> set ?appts" "a_slot_id a = s_id s" "a_status a \<noteq> ''cancelled''"
      by blast
    from da have "distinct [a \<leftarrow> ?appts. a_slot_id a = s_id s \<and> a_status a \<noteq> ''cancelled'']"
      by (simp add: distinct_map)
    moreover have "a \<in> set [a \<leftarrow> ?appts. a_slot_id a = s_id s \<and> a_status a \<noteq> ''cancelled'']"
      using a by simp
    moreover have "\<forall>y \<in> set [a \<leftarrow> ?appts. a_slot_id a = s_id s \<and> a_status a \<noteq> ''cancelled'']. y = a"
      using a once by auto
    ultimately show ?thesis by (rule length_one)
  qed
  have three: "[a \<leftarrow> ?appts. a_slot_id a = s_id s \<and> active a] = []"
    if s: "s \<in> set ?slots" "\<not> s_is_booked s" for s
  proof -
    have False if a: "a \<in> set ?appts" "a_slot_id a = s_id s" "active a" for a
    proof -
      from held [OF a(1) live [OF a(3)]] obtain s' where
        s': "s' \<in> set ?slots" "s_id s' = a_slot_id a" "s_is_booked s'"
        by blast
      from ds have "inj_on s_id (set ?slots)"
        by (simp add: distinct_map)
      with s' s(1) a(2) have "s' = s"
        by (auto dest: inj_onD)
      with s' s(2) show False by simp
    qed
    then show ?thesis by (auto simp: filter_empty_conv)
  qed
  show ?thesis
    unfolding consistent_def list_all_iff using one two three by auto
qed


lemma map_s_id_flag:
  "map s_id (map (\<lambda>s. if P s then s\<lparr>s_is_booked := flag\<rparr> else s) slots) = map s_id slots"
  by (induction slots) auto

lemma sound_sequence:
  "sound database \<Longrightarrow> sound (database\<lparr>appointments_id_seq := appointments_id_seq database + 1\<rparr>)"
  unfolding sound_def by fastforce

lemma sound_booked:
  assumes snd: "sound database"
    and slot: "slot \<in> set (doctor_time_slots database)" "\<not> s_is_booked slot"
    and new: "a_id new = appointments_id_seq database + 1" "a_status new = ''scheduled''"
      "a_slot_id new = s_id slot"
    and after: "database' = database
        \<lparr>appointments := appointments database @ [new],
         appointments_id_seq := appointments_id_seq database + 1,
         doctor_time_slots :=
           map (\<lambda>s. if s_id s = s_id slot then s\<lparr>s_is_booked := True\<rparr> else s)
             (doctor_time_slots database),
         notifications := notifications database @ ns\<rparr>"
  shows "sound database'"
proof -
  let ?slots = "doctor_time_slots database" and ?appts = "appointments database"
  from snd have ds: "distinct (map s_id ?slots)" and da: "distinct (map a_id ?appts)"
    and le: "\<And>a. a \<in> set ?appts \<Longrightarrow> a_id a \<le> appointments_id_seq database"
    and held: "\<And>a. a \<in> set ?appts \<Longrightarrow> a_status a \<noteq> ''cancelled'' \<Longrightarrow>
        \<exists>s \<in> set ?slots. s_id s = a_slot_id a \<and> s_is_booked s"
    and used: "\<And>s. s \<in> set ?slots \<Longrightarrow> s_is_booked s \<Longrightarrow>
        \<exists>a \<in> set ?appts. a_slot_id a = s_id s \<and> a_status a \<noteq> ''cancelled''"
    and once: "\<And>a a'. a \<in> set ?appts \<Longrightarrow> a' \<in> set ?appts \<Longrightarrow> a_slot_id a = a_slot_id a' \<Longrightarrow>
        a_status a \<noteq> ''cancelled'' \<Longrightarrow> a_status a' \<noteq> ''cancelled'' \<Longrightarrow> a = a'"
    unfolding sound_def by blast+
  from after have appts': "appointments database' = ?appts @ [new]"
    and seq': "appointments_id_seq database' = appointments_id_seq database + 1"
    and slots': "doctor_time_slots database' =
        map (\<lambda>s. if s_id s = s_id slot then s\<lparr>s_is_booked := True\<rparr> else s) ?slots"
    by simp_all
  let ?mark = "\<lambda>s. if s_id s = s_id slot then s\<lparr>s_is_booked := True\<rparr> else s"
  have inj: "inj_on s_id (set ?slots)"
    using ds by (simp add: distinct_map)
  have fresh: "a_slot_id a \<noteq> s_id slot" if "a \<in> set ?appts" "a_status a \<noteq> ''cancelled''" for a
  proof
    assume "a_slot_id a = s_id slot"
    with held [OF that] obtain s where "s \<in> set ?slots" "s_id s = s_id slot" "s_is_booked s"
      by auto
    with inj slot show False
      by (auto dest: inj_onD)
  qed
  have 1: "distinct (map s_id (doctor_time_slots database'))"
    using ds unfolding slots' map_s_id_flag .
  have 2: "distinct (map a_id (appointments database'))"
    using da le new(1) appts' by fastforce
  have 3: "\<forall>a \<in> set (appointments database'). a_id a \<le> appointments_id_seq database'"
    using le new(1) appts' seq' by fastforce
  have 4: "\<exists>s \<in> set (doctor_time_slots database'). s_id s = a_slot_id a \<and> s_is_booked s"
    if a: "a \<in> set (appointments database')" "a_status a \<noteq> ''cancelled''" for a
  proof (cases "a = new")
    case True
    have "?mark slot \<in> set (doctor_time_slots database')"
      using slot(1) slots' by simp
    moreover have "s_id (?mark slot) = a_slot_id a" "s_is_booked (?mark slot)"
      using True new(3) by simp_all
    ultimately show ?thesis by blast
  next
    case False
    with a appts' have "a \<in> set ?appts" by simp
    from held [OF this a(2)] obtain s where
      s: "s \<in> set ?slots" "s_id s = a_slot_id a" "s_is_booked s"
      by blast
    have "?mark s \<in> set (doctor_time_slots database')"
      using s(1) slots' by simp
    moreover have "s_id (?mark s) = a_slot_id a" "s_is_booked (?mark s)"
      using s by simp_all
    ultimately show ?thesis by blast
  qed
  have 5: "\<exists>a \<in> set (appointments database'). a_slot_id a = s_id s' \<and> a_status a \<noteq> ''cancelled''"
    if s': "s' \<in> set (doctor_time_slots database')" "s_is_booked s'" for s'
  proof -
    from s'(1) slots' obtain s where s: "s \<in> set ?slots" "s' = ?mark s"
      by auto
    show ?thesis
    proof (cases "s_id s = s_id slot")
      case True
      with s new appts' show ?thesis
        by (intro bexI [of _ new]) simp_all
    next
      case False
      with s s'(2) have "s_is_booked s" "s_id s' = s_id s" by simp_all
      with used [OF s(1)] appts' show ?thesis by auto
    qed
  qed
  have 6: "a = a'"
    if "a \<in> set (appointments database')" "a' \<in> set (appointments database')"
      "a_slot_id a = a_slot_id a'" "a_status a \<noteq> ''cancelled''" "a_status a' \<noteq> ''cancelled''"
    for a a'
  proof -
    have old: "x \<in> set ?appts" if "x \<in> set (appointments database')" "x \<noteq> new" for x
      using that appts' by simp
    have clash: False
      if "x \<in> set (appointments database')" "x \<noteq> new" "a_slot_id x = a_slot_id new"
        "a_status x \<noteq> ''cancelled''" for x
      using fresh [OF old [OF that(1,2)] that(4)] that(3) new(3) by simp
    show ?thesis
    proof (cases "a = new")
      case True
      with that clash [of a'] show ?thesis by metis
    next
      case a: False
      show ?thesis
      proof (cases "a' = new")
        case True
        with that clash [of a] a show ?thesis by metis
      next
        case False
        with a that old once show ?thesis by metis
      qed
    qed
  qed
  show ?thesis
    unfolding sound_def using 1 2 3 4 5 6 by blast
qed

lemma sound_bookAppointment:
  assumes "sound database"
  shows "sound (snd (bookAppointment srv database user b))"
proof (cases "status (fst (bookAppointment srv database user b)) = 201")
  case False
  from bookAppointment_thrown [OF this] assms sound_sequence [OF assms] show ?thesis
    by auto
next
  case True
  obtain res database' where r: "bookAppointment srv database user b = (res, database')"
    by (cases "bookAppointment srv database user b")
  with True bookAppointment_created [OF r] obtain v doctor doctor_user slot new ns where
    found: "book_read srv v database = Inr (doctor, doctor_user, slot)"
    and new: "a_id new = appointments_id_seq database + 1" "a_status new = ''scheduled''"
      "a_slot_id new = s_id slot"
    and after: "database' = database
        \<lparr>appointments := appointments database @ [new],
         appointments_id_seq := appointments_id_seq database + 1,
         doctor_time_slots :=
           map (\<lambda>s. if s_id s = s_id slot then s\<lparr>s_is_booked := True\<rparr> else s)
             (doctor_time_slots database),
         notifications := notifications database @ ns\<rparr>"
    by auto
  from book_read_meets_request [OF found]
  have slot: "slot \<in> set (doctor_time_slots database)" "\<not> s_is_booked slot"
    by simp_all
  from sound_booked [OF assms slot new after] r show ?thesis
    by simp
qed

lemma map_a_id_status:
  "map a_id (map (\<lambda>a. if P a then a\<lparr>a_status := st\<rparr> else a) appts) = map a_id appts"
  by (induction appts) auto


lemma cancelAppointment_effect:
  "snd (cancelAppointment database user appointmentId) = database
   \<or> (\<exists>aid a. int4 appointmentId = Inr aid
        \<and> a \<in> set (appointments database) \<and> a_id a = aid \<and> active a
        \<and> appointments (snd (cancelAppointment database user appointmentId)) =
            map (\<lambda>x. if a_id x = aid then x\<lparr>a_status := ''cancelled''\<rparr> else x)
              (appointments database)
        \<and> doctor_time_slots (snd (cancelAppointment database user appointmentId)) =
            map (\<lambda>s. if s_id s = a_slot_id a then s\<lparr>s_is_booked := False\<rparr> else s)
              (doctor_time_slots database)
        \<and> appointments_id_seq (snd (cancelAppointment database user appointmentId)) =
            appointments_id_seq database)"
proof (cases "int4 appointmentId")
  case (Inl err)
  then show ?thesis
    by (simp add: cancelAppointment_def transaction_def cancel_callback_def)
next
  case (Inr aid)
  show ?thesis
  proof (cases "appointmentResult database aid")
    case Nil
    with Inr show ?thesis
      by (simp add: cancelAppointment_def transaction_def cancel_callback_def)
  next
    case (Cons row rest)
    obtain a doctor_user_id where row: "row = (a, doctor_user_id)"
      by (cases row)
    from appointmentResult_row [OF Cons [unfolded row]]
    have a: "a \<in> set (appointments database)" "a_id a = aid"
      by simp_all
    show ?thesis
    proof (cases "canCancel user a doctor_user_id \<and> active a")
      case False
      with Inr Cons row show ?thesis
        by (auto simp: cancelAppointment_def transaction_def cancel_callback_def active_def)
    next
      case True
      with Inr Cons row a show ?thesis
        by (intro disjI2 exI [of _ aid] exI [of _ a])
           (auto simp: cancelAppointment_def transaction_def cancel_callback_def active_def)
    qed
  qed
qed

lemma sound_cancelAppointment:
  assumes snd: "sound database"
  shows "sound (snd (cancelAppointment database user appointmentId))"
proof -
  let ?slots = "doctor_time_slots database" and ?appts = "appointments database"
  let ?after = "snd (cancelAppointment database user appointmentId)"
  from snd have ds: "distinct (map s_id ?slots)" and da: "distinct (map a_id ?appts)"
    and le: "\<And>a. a \<in> set ?appts \<Longrightarrow> a_id a \<le> appointments_id_seq database"
    and held: "\<And>a. a \<in> set ?appts \<Longrightarrow> a_status a \<noteq> ''cancelled'' \<Longrightarrow>
        \<exists>s \<in> set ?slots. s_id s = a_slot_id a \<and> s_is_booked s"
    and used: "\<And>s. s \<in> set ?slots \<Longrightarrow> s_is_booked s \<Longrightarrow>
        \<exists>a \<in> set ?appts. a_slot_id a = s_id s \<and> a_status a \<noteq> ''cancelled''"
    and once: "\<And>a a'. a \<in> set ?appts \<Longrightarrow> a' \<in> set ?appts \<Longrightarrow> a_slot_id a = a_slot_id a' \<Longrightarrow>
        a_status a \<noteq> ''cancelled'' \<Longrightarrow> a_status a' \<noteq> ''cancelled'' \<Longrightarrow> a = a'"
    unfolding sound_def by blast+
  from cancelAppointment_effect [of database user appointmentId]
  show ?thesis
  proof
    assume "?after = database"
    with snd show ?thesis by simp
  next
    assume "\<exists>aid a. int4 appointmentId = Inr aid
        \<and> a \<in> set ?appts \<and> a_id a = aid \<and> active a
        \<and> appointments ?after =
            map (\<lambda>x. if a_id x = aid then x\<lparr>a_status := ''cancelled''\<rparr> else x) ?appts
        \<and> doctor_time_slots ?after =
            map (\<lambda>s. if s_id s = a_slot_id a then s\<lparr>s_is_booked := False\<rparr> else s) ?slots
        \<and> appointments_id_seq ?after = appointments_id_seq database"
    then obtain aid a where a: "a \<in> set ?appts" "a_id a = aid" "active a"
      and appts': "appointments ?after =
            map (\<lambda>x. if a_id x = aid then x\<lparr>a_status := ''cancelled''\<rparr> else x) ?appts"
      and slots': "doctor_time_slots ?after =
            map (\<lambda>s. if s_id s = a_slot_id a then s\<lparr>s_is_booked := False\<rparr> else s) ?slots"
      and seq': "appointments_id_seq ?after = appointments_id_seq database"
      by blast
    let ?cancel = "\<lambda>x. if a_id x = aid then x\<lparr>a_status := ''cancelled''\<rparr> else x"
    let ?free = "\<lambda>s. if s_id s = a_slot_id a then s\<lparr>s_is_booked := False\<rparr> else s"
    have live: "a_status a \<noteq> ''cancelled''"
      using a(3) by (auto simp: active_def)
    have inj: "inj_on a_id (set ?appts)"
      using da by (simp add: distinct_map)
    have the_one: "x = a" if "x \<in> set ?appts" "a_id x = aid" for x
      using that a inj by (auto dest: inj_onD)
    have kept: "\<exists>x \<in> set ?appts. x' = x \<and> a_id x \<noteq> aid"
      if "x' \<in> set (appointments ?after)" "a_status x' \<noteq> ''cancelled''" for x'
    proof -
      from that(1) appts' obtain x where x: "x \<in> set ?appts" "x' = ?cancel x"
        by auto
      with that(2) have "a_id x \<noteq> aid"
        by (cases "a_id x = aid") simp_all
      with x show ?thesis by simp
    qed
    have 1: "distinct (map s_id (doctor_time_slots ?after))"
      using ds unfolding slots' map_s_id_flag .
    have 2: "distinct (map a_id (appointments ?after))"
      using da unfolding appts' map_a_id_status .
    have 3: "\<forall>x \<in> set (appointments ?after). a_id x \<le> appointments_id_seq ?after"
      using le unfolding appts' seq' by auto
    have 4: "\<exists>s \<in> set (doctor_time_slots ?after). s_id s = a_slot_id x' \<and> s_is_booked s"
      if x': "x' \<in> set (appointments ?after)" "a_status x' \<noteq> ''cancelled''" for x'
    proof -
      from kept [OF x'] have x: "x' \<in> set ?appts" "a_id x' \<noteq> aid"
        by auto
      from held [OF x(1) x'(2)] obtain s where
        s: "s \<in> set ?slots" "s_id s = a_slot_id x'" "s_is_booked s"
        by blast
      have "a_slot_id x' \<noteq> a_slot_id a"
      proof
        assume "a_slot_id x' = a_slot_id a"
        from once [OF x(1) a(1) this x'(2) live] x(2) a(2) show False by simp
      qed
      with s have "?free s = s" by simp
      moreover have "?free s \<in> set (doctor_time_slots ?after)"
        using s(1) slots' by simp
      ultimately show ?thesis using s by metis
    qed
    have 5: "\<exists>x \<in> set (appointments ?after). a_slot_id x = s_id s' \<and> a_status x \<noteq> ''cancelled''"
      if s': "s' \<in> set (doctor_time_slots ?after)" "s_is_booked s'" for s'
    proof -
      from s'(1) slots' obtain s where s: "s \<in> set ?slots" "s' = ?free s"
        by auto
      with s'(2) have other: "s_id s \<noteq> a_slot_id a"
        by (cases "s_id s = a_slot_id a") simp_all
      with s s'(2) have "s_is_booked s" "s' = s" by simp_all
      from used [OF s(1) this(1)] obtain x where
        x: "x \<in> set ?appts" "a_slot_id x = s_id s" "a_status x \<noteq> ''cancelled''"
        by blast
      have "a_id x \<noteq> aid"
      proof
        assume "a_id x = aid"
        from the_one [OF x(1) this] x(2) other show False by simp
      qed
      then have "?cancel x = x" by simp
      moreover have "?cancel x \<in> set (appointments ?after)"
        using x(1) appts' by simp
      ultimately show ?thesis using x \<open>s' = s\<close> by metis
    qed
    have 6: "x = y"
      if "x \<in> set (appointments ?after)" "y \<in> set (appointments ?after)"
        "a_slot_id x = a_slot_id y" "a_status x \<noteq> ''cancelled''" "a_status y \<noteq> ''cancelled''"
      for x y
    proof -
      from kept [OF that(1,4)] kept [OF that(2,5)] have "x \<in> set ?appts" "y \<in> set ?appts"
        by auto
      from once [OF this that(3,4,5)] show ?thesis .
    qed
    show ?thesis
      unfolding sound_def using 1 2 3 4 5 6 by blast
  qed
qed

lemma sound_clinic: "sound clinic" "sound booked_clinic"
  by code_simp+



subsection \<open>The status update, the read and the schema\<close>

text \<open>The status update writes no slot, and it sets the status it is given whatever the
  status was.\<close>

lemma updateStatus_keeps_slots:
  "doctor_time_slots (snd (updateStatus database user appointmentId sb)) =
   doctor_time_slots database"
  by (auto simp: updateStatus_def Let_def split: sum.splits list.splits prod.splits)

lemma rewritten_status:
  assumes "\<And>x. a_id (g x) = a_id x" and "\<And>x. a_status (g x) = st"
  shows "map a_status [x \<leftarrow> map (\<lambda>x. if a_id x = aid then g x else x) xs. a_id x = aid] =
    map (\<lambda>x. st) [x \<leftarrow> xs. a_id x = aid]"
  using assms by (induction xs) auto

lemma updateStatus_any_status:
  assumes "validate_status sb = Inr v" and "int4 appointmentId = Inr aid"
    and "appointmentResult database aid = (a, doctor_user_id) # rest"
    and "doctor_user_id = user_id user"
  shows "status (fst (updateStatus database user appointmentId sb)) = 200
    \<and> map a_status [x \<leftarrow> appointments (snd (updateStatus database user appointmentId sb)).
          a_id x = aid] =
        map (\<lambda>x. b_status v) [x \<leftarrow> appointments database. a_id x = aid]"
  using assms
  by (simp add: updateStatus_def Let_def rewritten_status)

text \<open>\<^verbatim>\<open>GET /:id\<close> gives no appointment to a user whose role is \<^verbatim>\<open>doctor\<close>.\<close>

lemma get_appointment_refuses_doctors:
  assumes "authenticateToken database tok = Inr user" and "user_role user = ''doctor''"
  shows "status (fst (get_appointment database tok appointmentId)) \<in> {403, 404, 500}"
  using assms
  by (auto simp: get_appointment_def getAppointment_def hasAccess_def
      split: sum.splits list.splits)

text \<open>A cancellation adds one notification: to the doctor's user when a patient cancels,
  to the patient otherwise.\<close>

lemma cancelAppointment_notifies_one:
  assumes "int4 appointmentId = Inr aid"
    and "appointmentResult database aid = (a, doctor_user_id) # rest"
    and "canCancel user a doctor_user_id"
    and "a_status a = ''scheduled'' \<or> a_status a = ''confirmed''"
  shows "map n_user_id (notifications (snd (cancelAppointment database user appointmentId))) =
    map n_user_id (notifications database) @
      [if user_role user = ''patient'' then doctor_user_id else a_patient_id a]"
  using assms
  by (auto simp: cancelAppointment_def transaction_def cancel_callback_def cancel_answer_def)

text \<open>The schema accepts every time that matches the pattern, whatever the clock.\<close>

lemma validate_booking_time:
  assumes "validate_booking srv b = Inr v"
    and "parse_time t = Some m"
  shows "validate_booking srv (b\<lparr>appointmentTime := t\<rparr>) =
    Inr (v\<lparr>v_appointmentTime := t, v_time := m\<rparr>)"
  using assms
  by (auto simp: validate_booking_def split: if_splits option.splits)


subsection \<open>At the clinics\<close>

text \<open>At the clinics: the doctor who consults offline only is not booked online; a
  patient whose name has an apostrophe is answered 500, and of the appointment and the
  slot's mark that the callback had written only the step of the sequence stays; the
  slot that is booked is refused to the next patient; the cancelled clinic is sound, its
  slot free.\<close>

lemma bookings_at_the_clinics:
  "bookAppointment noon offline_clinic paul morning_request =
     (Response 400 (Failure ''Bad Request'' ''Doctor does not support ONLINE consultations''),
      offline_clinic)"
  "bookAppointment noon clinic (paul\<lparr>user_lastName := ''O'Brien''\<rparr>) morning_request =
     (Response 500 (Failure ''Internal Server Error'' ''Failed to book appointment''),
      clinic\<lparr>appointments_id_seq := 1\<rparr>)"
  "bookAppointment noon clinic paul morning_request =
     (Response 201 (Booked ''Appointment booked successfully'' first_appointment ''Dr. Xavier Durand''),
      booked_clinic)"
  "bookAppointment (noon\<lparr>clock := clock noon + 1\<rparr>) booked_clinic pia morning_request =
     (Response 400 (Failure ''Bad Request'' ''Selected time slot is not available''), booked_clinic)"
  "sound cancelled_clinic"
  "map s_is_booked (doctor_time_slots cancelled_clinic) = [False]"
  "map a_status (appointments cancelled_clinic) = [''cancelled'']"
  by code_simp+

subsection \<open>Booking is for patients\<close>

text \<open>
  Claim C10. Whoever is authenticated with a role other than \<^verbatim>\<open>patient\<close>, a doctor or an
  admin among them, gets 403 Forbidden from \<^verbatim>\<open>POST /\<close>, whatever the body of the request
  (it is not validated) and with the database as it was: no slot, appointment or
  notification changes.
\<close>

theorem post_appointment_requires_patient:
  "authenticateToken database tok = Inr user \<Longrightarrow> user_role user \<noteq> ''patient'' \<Longrightarrow>
   post_appointment srv database tok b =
     (Response 403 (Failure ''Forbidden'' ''Patient access required''), database)"
  by (simp add: post_appointment_def requirePatient_def)

theorem post_appointment_requires_patient_witness:
  "(user_role xavier \<noteq> ''patient''
    \<and> post_appointment noon clinic (Decoded 2) (morning_request\<lparr>doctorId := 0\<rparr>) =
        (Response 403 (Failure ''Forbidden'' ''Patient access required''), clinic))
   \<and> (user_role ada \<noteq> ''patient''
    \<and> post_appointment noon clinic (Decoded 3) morning_request =
        (Response 403 (Failure ''Forbidden'' ''Patient access required''), clinic))"
proof -
  have d: "authenticateToken clinic (Decoded 2) = Inr xavier"
    by code_simp
  have a: "authenticateToken clinic (Decoded 3) = Inr ada"
    by code_simp
  have rd: "user_role xavier \<noteq> ''patient''" and ra: "user_role ada \<noteq> ''patient''"
    by code_simp+
  show ?thesis
    using post_appointment_requires_patient [OF d rd, of noon "morning_request\<lparr>doctorId := 0\<rparr>"]
      post_appointment_requires_patient [OF a ra, of noon morning_request] rd ra
    by simp
qed

subsection \<open>Where the handlers part from the specification\<close>

text \<open>
  Claim C1. Slots and appointments agree in the booked clinic. The doctor then sets the
  appointment to \<^verbatim>\<open>cancelled\<close> through \<^verbatim>\<open>PUT /:id/status\<close>: the answer is 200, the appointment
  is cancelled, and its slot is still booked, a booked slot that no appointment other than
  a cancelled one refers to, so slots and appointments no longer agree. The same
  cancellation through \<^verbatim>\<open>DELETE /:id\<close> frees the slot and keeps them in agreement.
\<close>

theorem status_cancelled_leaves_slot_booked:
  "consistent booked_clinic
   \<and> (case put_status booked_clinic (Decoded 2) ''1'' (set_status ''cancelled'') of
        (res, database') \<Rightarrow>
          status res = 200 \<and> map a_status (appointments database') = [''cancelled'']
          \<and> map s_is_booked (doctor_time_slots database') = [True]
          \<and> \<not> consistent database')
   \<and> consistent (snd (delete_appointment booked_clinic (Decoded 2) ''1''))"
  by code_simp

text \<open>
  Claim C2. The doctor completes the appointment of the booked clinic. \<^verbatim>\<open>DELETE /:id\<close> then
  refuses to cancel it, with \<^verbatim>\<open>Cannot cancel appointment with current status\<close> and the
  database unchanged; but \<^verbatim>\<open>PUT /:id/status\<close> with \<^verbatim>\<open>confirmed\<close> answers 200 and the completed
  appointment is confirmed again: the status update checks no current status.
\<close>

theorem completed_appointment_is_reopened:
  "(case put_status booked_clinic (Decoded 2) ''1'' (set_status ''completed'') of
      (res1, completed) \<Rightarrow>
        status res1 = 200 \<and> map a_status (appointments completed) = [''completed'']
        \<and> delete_appointment completed (Decoded 2) ''1'' =
            (Response 400 (Failure ''Bad Request'' ''Cannot cancel appointment with current status''),
             completed)
        \<and> (case put_status completed (Decoded 2) ''1'' (set_status ''confirmed'') of
              (res2, database') \<Rightarrow>
                status res2 = 200 \<and> map a_status (appointments database') = [''confirmed'']))"
  by code_simp

text \<open>
  Claim C7. The appointment of the booked clinic is patient 1's, with the doctor whose
  user is 2. The admin (user 3) cancels it through \<^verbatim>\<open>DELETE /:id\<close>: the answer is 200 and
  exactly one notification is added, a \<^verbatim>\<open>cancellation\<close> to user 1 that names the doctor as
  the one who cancelled. The doctor's user is sent nothing.
\<close>

theorem admin_cancellation_notifies_patient_only:
  "a_patient_id first_appointment = 1 \<and> appointmentResult booked_clinic 1 = [(first_appointment, 2)]
   \<and> (case delete_appointment booked_clinic (Decoded 3) ''1'' of
        (res, database') \<Rightarrow>
          res = Response 200 (Done ''Appointment cancelled successfully'')
          \<and> notifications database' = notifications booked_clinic @
              [\<lparr>n_user_id = 1, n_type = ''cancellation'', n_title = ''Rendez-vous annule'',
                n_message = ''Votre rendez-vous a ete annule par le medecin.'',
                n_related_appointment_id = 1\<rparr>])"
  by code_simp

text \<open>
  Claim C8. The appointment of the booked clinic is with the doctor whose user is 2. That
  user, authenticated as a doctor, asks for it through \<^verbatim>\<open>GET /:id\<close> and gets 403 Forbidden:
  the route sets no \<^verbatim>\<open>req.doctor\<close>, so the doctor's branch of the access check never holds.
  The patient (user 1) and the admin (user 3) get the appointment.
\<close>

theorem owning_doctor_is_refused:
  "appointmentResult booked_clinic 1 = [(first_appointment, 2)]
   \<and> authenticateToken booked_clinic (Decoded 2) = Inr xavier
   \<and> get_appointment booked_clinic (Decoded 2) ''1'' =
       (Response 403 (Failure ''Forbidden'' ''You do not have permission to view this appointment''),
        booked_clinic)
   \<and> get_appointment booked_clinic (Decoded 1) ''1'' =
       (Response 200 (Details first_appointment), booked_clinic)
   \<and> get_appointment booked_clinic (Decoded 3) ''1'' =
       (Response 200 (Details first_appointment), booked_clinic)"
  by code_simp

text \<open>
  Claim C9. At noon the patient sends a booking whose date is 13:00 of the same day and
  whose time is 09:00. The date is not before the server's time, so validation passes; the
  time is only matched against its pattern. \<^verbatim>\<open>POST /\<close> answers 201 and the clinic holds an
  appointment on the current day at 09:00, three hours before the moment of booking.
\<close>

theorem past_time_of_day_is_booked:
  "pg_date noon (appointmentDate morning_request) = pg_date noon (clock noon)
   \<and> parse_time (appointmentTime morning_request) = Some 540
   \<and> pg_date noon (clock noon) * 86400000 + 540 * 60000 < clock noon
   \<and> post_appointment noon clinic (Decoded 1) morning_request =
       (Response 201 (Booked ''Appointment booked successfully'' first_appointment ''Dr. Xavier Durand''),
        booked_clinic)"
  by code_simp

text \<open>
  Claim C3. Two patients send the same valid booking for the one free slot of the clinic,
  and their handlers run interleaved: both look for a free slot before either has marked
  it. Both get 201, and the clinic holds two scheduled appointments on slot 100, so slots
  and appointments do not agree. Served one after the other, the same two requests have
  one winner and the second is told the slot is not available.
\<close>

theorem concurrent_bookings_both_succeed:
  "validate_booking noon morning_request = Inr morning_value
   \<and> (case interleaved_bookings noon clinic paul morning_value pia morning_value of
        (res1, res2, database') \<Rightarrow>
          status res1 = 201 \<and> status res2 = 201
          \<and> map (\<lambda>a. (a_id a, a_patient_id a, a_slot_id a, a_status a)) (appointments database') =
              [(1, 1, 100, ''scheduled''), (2, 4, 100, ''scheduled'')]
          \<and> \<not> consistent database')
   \<and> (case bookAppointment noon clinic paul morning_request of
        (res1, database1) \<Rightarrow>
          status res1 = 201
          \<and> bookAppointment noon database1 pia morning_request =
              (Response 400 (Failure ''Bad Request'' ''Selected time slot is not available''),
               database1))"
  by code_simp

text \<open>
  Claim C4. User 5 is a patient whose first name ends the quoted message it is pasted
  into and begins a row of its own. Her valid booking gets 201, and three notifications
  are stored for it: the confirmation to her, and two \<^verbatim>\<open>new_appointment\<close> rows to the
  doctor's user, the second with a message of her choice.
\<close>

theorem pasted_name_adds_a_notification:
  "authenticateToken clinic (Decoded 5) = Inr eve
   \<and> (case post_appointment noon clinic (Decoded 5) morning_request of
        (res, database') \<Rightarrow>
          status res = 201
          \<and> map (\<lambda>n. (n_user_id n, n_type n, n_message n)) (notifications database') =
              [(5, ''confirmation'',
                ''Votre rendez-vous avec Dr. Xavier Durand le Invalid Date a 09:00 a ete confirme.''),
               (2, ''new_appointment'', ''Vous avez un nouveau rendez-vous avec Eve''),
               (2, ''new_appointment'', ''Rappelez le 0800. Noir le Invalid Date a 09:00.'')])"
  by code_simp

text \<open>
  Claim C5. The doctor of this clinic has no \<^verbatim>\<open>consultation_modes\<close> (the column is
  \<^verbatim>\<open>NULL\<close>), so supports no mode: a valid booking with this doctor is answered 500
  Internal Server Error, not 400. So is a booking with a doctor id that no doctor has and
  no \<^verbatim>\<open>INTEGER\<close> holds, while a doctor id that no doctor has and the column could hold is
  answered 400 with \<^verbatim>\<open>Doctor not found or not available\<close>. Each time the database stays
  as it was.
\<close>

theorem null_modes_doctor_is_an_internal_error:
  "map d_consultation_modes (doctors null_modes_clinic) = [None]
   \<and> post_appointment noon null_modes_clinic (Decoded 1) morning_request =
       (Response 500 (Failure ''Internal Server Error'' ''Failed to book appointment''),
        null_modes_clinic)
   \<and> post_appointment noon clinic (Decoded 1) (morning_request\<lparr>doctorId := 2147483648\<rparr>) =
       (Response 500 (Failure ''Internal Server Error'' ''Failed to book appointment''), clinic)
   \<and> post_appointment noon clinic (Decoded 1) (morning_request\<lparr>doctorId := 11\<rparr>) =
       (Response 400 (Failure ''Bad Request'' ''Doctor not found or not available''), clinic)"
  by code_simp

text \<open>
  Claim C6. The booked clinic has one appointment, with id 1. \<^verbatim>\<open>DELETE /2147483648\<close> and
  \<^verbatim>\<open>DELETE /abc\<close> name no appointment and are answered 500 Internal Server Error, where
  \<^verbatim>\<open>DELETE /2\<close> is answered 400 with \<^verbatim>\<open>Appointment not found\<close>. Each time the database
  stays as it was.
\<close>

theorem unreadable_id_is_an_internal_error:
  "map a_id (appointments booked_clinic) = [1]
   \<and> delete_appointment booked_clinic (Decoded 1) ''2147483648'' =
       (Response 500 (Failure ''Internal Server Error'' ''Failed to cancel appointment''),
        booked_clinic)
   \<and> delete_appointment booked_clinic (Decoded 1) ''abc'' =
       (Response 500 (Failure ''Internal Server Error'' ''Failed to cancel appointment''),
        booked_clinic)
   \<and> delete_appointment booked_clinic (Decoded 1) ''2'' =
       (Response 400 (Failure ''Bad Request'' ''Appointment not found''), booked_clinic)"
  by code_simp

end
